theory Spec2Isabelle
  imports Main "HOL-Library.Word"
begin

unbundle bit_operations_syntax

section \<open>The profiler callbacks of \<open>cor_profiler.cpp\<close>\<close>

text \<open>
  The file embeds the three callbacks of \<open>CorProfiler\<close> that make up the call-site
  rewriting engine: \<open>ModuleLoadFinished\<close>, \<open>ModuleUnloadFinished\<close> and
  \<open>JITCompilationStarted\<close>. Everything the callbacks reach through an interface of the
  runtime (\<open>ICorProfilerInfo\<close>, \<open>IMetaDataImport\<close>, the metadata emitters) or through a
  header that is not part of the translation unit is a field of a record of functions that
  the callbacks take as an argument, so that every theorem holds for whatever the runtime
  answers. A callback returns its \<open>HRESULT\<close> together with the sequence of calls it made
  to those interfaces, in the order it made them; a callback that changes the registry of
  modules returns the profiler after it as well.
\<close>

subsection \<open>Result codes and metadata tokens\<close>

type_synonym HRESULT = "32 word"
type_synonym mdToken = "32 word"
type_synonym DWORD = "32 word"
type_synonym ModuleID = "64 word"
type_synonym FunctionID = "64 word"
type_synonym AssemblyID = "64 word"

definition S_OK :: HRESULT where
  "S_OK = 0"

definition E_FAIL :: HRESULT where
  "E_FAIL = 0x80004005"

text \<open>\<open>FAILED(hr)\<close> is \<open>((HRESULT)(hr)) < 0\<close>: the sign bit of the 32-bit code.\<close>

definition FAILED :: "HRESULT \<Rightarrow> bool" where
  "FAILED hr = (sint hr < 0)"

text \<open>\<open>TypeFromToken(tk)\<close> is \<open>tk & 0xff000000\<close>; the table tags are those of \<open>corhdr.h\<close>.\<close>

definition TypeFromToken :: "mdToken \<Rightarrow> mdToken" where
  "TypeFromToken tk = tk AND 0xff000000"

definition mdtTypeRef :: mdToken where
  "mdtTypeRef = 0x01000000"

definition mdtTypeDef :: mdToken where
  "mdtTypeDef = 0x02000000"

definition mdtMethodDef :: mdToken where
  "mdtMethodDef = 0x06000000"

definition mdtMemberRef :: mdToken where
  "mdtMemberRef = 0x0a000000"

definition COR_PRF_MODULE_WINDOWS_RUNTIME :: DWORD where
  "COR_PRF_MODULE_WINDOWS_RUNTIME = 0x40"

text \<open>The two call opcodes, by their index in the opcode table.\<close>

definition CEE_CALL :: "32 word" where
  "CEE_CALL = 0x28"

definition CEE_CALLVIRT :: "32 word" where
  "CEE_CALLVIRT = 0x6F"

subsection \<open>Integrations\<close>

text \<open>
  Modelled from the spec: the structures of \<open>integration.h\<close>, which is not among the
  sources. They are the method pattern, the method replacement and the integration of
  section 3 of the spec, with the fields under the names the callbacks read them by:
  \<open>method_replacement.caller_method.assembly.name\<close>, \<open>.type_name\<close>, \<open>.method_name\<close>,
  \<open>.target_method\<close>, \<open>.wrapper_method\<close>, \<open>integration.method_replacements\<close>.
\<close>

record assembly_reference =
  name :: string

record method_reference =
  assembly :: assembly_reference
  type_name :: string
  method_name :: string

record method_replacement =
  caller_method :: method_reference
  target_method :: method_reference
  wrapper_method :: method_reference

record integration =
  integration_name :: string
  method_replacements :: "method_replacement list"

text \<open>
  Modelled from the spec: \<open>method_reference::get_method_cache_key\<close> is declared in
  \<open>integration.h\<close>, which is not among the sources. The spec calls it a stable identity
  derived from the fields of the wrapper; here it is the bracketed assembly name followed by
  the type name, a dot and the method name. No theorem below depends on its shape.
\<close>

definition get_method_cache_key :: "method_reference \<Rightarrow> string" where
  "get_method_cache_key m =
     ''['' @ name (assembly m) @ '']'' @ type_name m @ ''.'' @ method_name m"

subsection \<open>Instructions\<close>

text \<open>
  Modelled from the spec: an \<open>ILInstr\<close> node of the rewriter's list, declared in
  \<open>ILRewriter.h\<close>, which is not among the sources; the spec has it as an instruction with
  an opcode and an operand. The callbacks read and write \<open>m_opcode\<close> and \<open>m_Arg32\<close>;
  whatever else a node holds is the extension of the record, so that a theorem about
  \<open>'z ILInstr_scheme\<close> speaks about every other field too. The circular list that starts
  after the sentinel \<open>GetILList()\<close> and ends when the sentinel comes back is the list of its
  nodes in that order.
\<close>

record ILInstr =
  m_opcode :: "32 word"
  m_Arg32 :: mdToken

subsection \<open>What the runtime answers\<close>

text \<open>
  \<open>IMetaDataImport\<close>, restricted to the four reads of the scan. Each function gives the
  \<open>HRESULT\<close> and the out-parameters the callback passes a buffer for; a name is the
  content of the 1024-character buffer after the call, read as the comparison with a
  \<open>std::wstring\<close> reads it.
\<close>

record IMetaDataImport =
  GetMemberRefProps :: "mdToken \<Rightarrow> HRESULT \<times> mdToken \<times> string"
  GetTypeRefProps :: "mdToken \<Rightarrow> HRESULT \<times> string"
  GetMethodProps :: "mdToken \<Rightarrow> HRESULT \<times> mdToken \<times> string"
  GetTypeDefProps :: "mdToken \<Rightarrow> HRESULT \<times> string"
  GetModuleFromScope :: "HRESULT \<times> mdToken"

text \<open>
  Modelled from the spec: \<open>ModuleMetadata\<close> is declared in \<open>ModuleMetadata.h\<close>, which is
  not among the sources. It is the module record of section 3 of the spec: the import
  interface, the assembly name, the integrations the module was loaded with, and the
  mapping from the cache key of a wrapper to its emitted member reference, in which
  \<open>TryGetWrapperMemberRef\<close> looks a key up.
\<close>

record ModuleMetadata =
  metadata_import :: IMetaDataImport
  assemblyName :: string
  integrations :: "integration list"
  wrapper_refs :: "string \<rightharpoonup> mdToken"

definition TryGetWrapperMemberRef :: "ModuleMetadata \<Rightarrow> string \<Rightarrow> mdToken option" where
  "TryGetWrapperMemberRef md key = wrapper_refs md key"

text \<open>
  Modelled from the spec: the result of \<open>GetFunctionInfo\<close> of \<open>clr_helpers.h\<close>, which is
  not among the sources. It is the identity of the compiling method of section 4.4 of the
  spec: the fields the callback reads (\<open>caller.type.name\<close>, \<open>caller.name\<close>) and the answer
  of \<open>caller.isvalid()\<close>, false when the identity cannot be resolved.
\<close>

record TypeInfo =
  type_info_name :: string

record FunctionInfo =
  isvalid :: bool
  function_type :: TypeInfo
  function_name :: string

text \<open>
  The runtime and the helpers outside the translation unit:
  \<^item> \<open>info_GetFunctionInfo\<close> is \<open>ICorProfilerInfo::GetFunctionInfo\<close>;
  \<^item> \<open>GetFunctionInfo\<close> is the helper of \<open>clr_helpers.h\<close>;
  \<^item> \<open>rewriter_Import\<close> is \<open>ILRewriter::Import\<close> for the module and method token the
    rewriter was built with: its \<open>HRESULT\<close> and the instruction list it builds;
  \<^item> \<open>GetModuleInfo2\<close>, \<open>GetAssemblyName\<close>, \<open>GetModuleMetaData\<close> serve the module load;
  \<^item> \<open>EmitAssemblyRef\<close> and \<open>DefineMemberRef\<close> are the writes of the \<open>MetadataBuilder\<close>;
  \<^item> \<open>LOG_IFFAILEDRET_code\<close> is the code the macro \<open>LOG_IFFAILEDRET\<close> of \<open>Macros.h\<close>
    returns for a failed \<open>HRESULT\<close>.
\<close>

record 'z runtime =
  info_GetFunctionInfo :: "FunctionID \<Rightarrow> HRESULT \<times> ModuleID \<times> mdToken"
  GetFunctionInfo :: "IMetaDataImport \<Rightarrow> mdToken \<Rightarrow> FunctionInfo"
  rewriter_Import :: "ModuleID \<Rightarrow> mdToken \<Rightarrow> HRESULT \<times> 'z ILInstr_scheme list"
  GetModuleInfo2 :: "ModuleID \<Rightarrow> HRESULT \<times> AssemblyID \<times> DWORD"
  GetAssemblyName :: "AssemblyID \<Rightarrow> string"
  GetModuleMetaData :: "ModuleID \<Rightarrow> HRESULT \<times> IMetaDataImport"
  EmitAssemblyRef :: "assembly_reference \<Rightarrow> HRESULT"
  DefineMemberRef :: "method_reference \<Rightarrow> HRESULT \<times> mdToken"
  LOG_IFFAILEDRET_code :: "HRESULT \<Rightarrow> HRESULT"

text \<open>The calls a callback makes to its collaborators, as they appear in its trace.\<close>

datatype 'z call =
    Call_TryGetWrapperMemberRef string
  | Call_Import
  | Call_GetMemberRefProps mdToken
  | Call_GetTypeRefProps mdToken
  | Call_GetMethodProps mdToken
  | Call_GetTypeDefProps mdToken
  | Call_Export "'z ILInstr_scheme list"

text \<open>The profiler object: the catalog it was built with and the registry of modules.\<close>

record CorProfiler =
  prof_integrations :: "integration list"
  module_id_to_info_map :: "ModuleID \<rightharpoonup> ModuleMetadata"

subsection \<open>\<open>JITCompilationStarted\<close>: one instruction\<close>

text \<open>
  Modelled from the spec: \<open>RETURN_OK_IF_FAILED\<close> is a macro of \<open>Macros.h\<close>, which is not
  among the sources. As its name says, and as section 7 of the spec has a rejected read end
  the current scope without a failure reaching the host, it returns \<open>S_OK\<close> from the
  callback when the \<open>HRESULT\<close> is a failure and does nothing otherwise. In the functions
  of the scan the result \<open>None\<close> stands for that return; \<open>Some (instr', rewritten)\<close> is the
  end of the loop body for one instruction, by \<open>continue\<close> or by reaching its last line,
  with the node as the body left it and whether the body assigned \<open>modified = true\<close>.
\<close>

type_synonym 'z visited = "'z call list \<times> ('z ILInstr_scheme \<times> bool) option"

text \<open>The label \<open>compare_type_and_method_names\<close> (lines 327 to 338).\<close>

definition compare_type_and_method_names ::
  "method_replacement \<Rightarrow> mdToken \<Rightarrow> 'z ILInstr_scheme \<Rightarrow> string \<Rightarrow> string
     \<Rightarrow> 'z ILInstr_scheme \<times> bool" where
  "compare_type_and_method_names mr wrapper_method_ref pInstr target_type_name target_method_name =
     (if type_name (target_method mr) = target_type_name \<and>
         method_name (target_method mr) = target_method_name
      then (pInstr\<lparr>m_opcode := CEE_CALL, m_Arg32 := wrapper_method_ref\<rparr>, True)
      else (pInstr, False))"

text \<open>The label \<open>use_type_def\<close> (lines 320 to 325), falling through to the comparison.\<close>

definition use_type_def ::
  "IMetaDataImport \<Rightarrow> method_replacement \<Rightarrow> mdToken \<Rightarrow> 'z ILInstr_scheme \<Rightarrow> mdToken \<Rightarrow> string
     \<Rightarrow> 'z visited" where
  "use_type_def imp mr wrapper_method_ref pInstr target_type_def target_method_name =
     (case GetTypeDefProps imp target_type_def of
        (hr, target_type_name) \<Rightarrow>
          if FAILED hr then ([Call_GetTypeDefProps target_type_def], None)
          else ([Call_GetTypeDefProps target_type_def],
                Some (compare_type_and_method_names mr wrapper_method_ref pInstr
                        target_type_name target_method_name)))"

text \<open>The label \<open>use_method_def\<close> (lines 306 to 318), falling through to \<open>use_type_def\<close>.\<close>

definition use_method_def ::
  "IMetaDataImport \<Rightarrow> method_replacement \<Rightarrow> mdToken \<Rightarrow> 'z ILInstr_scheme \<Rightarrow> mdToken
     \<Rightarrow> 'z visited" where
  "use_method_def imp mr wrapper_method_ref pInstr target_method_def =
     (case GetMethodProps imp target_method_def of
        (hr, target_type_def, target_method_name) \<Rightarrow>
          if FAILED hr then ([Call_GetMethodProps target_method_def], None)
          else if method_name (target_method mr) \<noteq> target_method_name
          then ([Call_GetMethodProps target_method_def], Some (pInstr, False))
          else (case use_type_def imp mr wrapper_method_ref pInstr target_type_def
                       target_method_name of
                  (cs, r) \<Rightarrow> (Call_GetMethodProps target_method_def # cs, r)))"

text \<open>The body of the loop over the instructions (lines 247 to 339).\<close>

definition visit_instr ::
  "IMetaDataImport \<Rightarrow> method_replacement \<Rightarrow> mdToken \<Rightarrow> 'z ILInstr_scheme \<Rightarrow> 'z visited" where
  "visit_instr imp mr wrapper_method_ref pInstr =
     (if (m_opcode pInstr = CEE_CALL \<or> m_opcode pInstr = CEE_CALLVIRT) \<and>
         (TypeFromToken (m_Arg32 pInstr) = mdtMemberRef \<or>
          TypeFromToken (m_Arg32 pInstr) = mdtMethodDef)
      then
        if TypeFromToken (m_Arg32 pInstr) = mdtMemberRef
        then
          (case GetMemberRefProps imp (m_Arg32 pInstr) of
             (hr, token, target_method_name) \<Rightarrow>
               if FAILED hr then ([Call_GetMemberRefProps (m_Arg32 pInstr)], None)
               else if method_name (target_method mr) \<noteq> target_method_name
               then ([Call_GetMemberRefProps (m_Arg32 pInstr)], Some (pInstr, False))
               else if TypeFromToken token = mdtTypeRef
               then
                 (case GetTypeRefProps imp token of
                    (hr, target_type_name) \<Rightarrow>
                      if FAILED hr
                      then ([Call_GetMemberRefProps (m_Arg32 pInstr), Call_GetTypeRefProps token],
                            None)
                      else ([Call_GetMemberRefProps (m_Arg32 pInstr), Call_GetTypeRefProps token],
                            Some (compare_type_and_method_names mr wrapper_method_ref pInstr
                                    target_type_name target_method_name)))
               else if TypeFromToken token = mdtTypeDef
               then
                 (case use_type_def imp mr wrapper_method_ref pInstr token target_method_name of
                    (cs, r) \<Rightarrow> (Call_GetMemberRefProps (m_Arg32 pInstr) # cs, r))
               else if TypeFromToken token = mdtMethodDef
               then
                 (case use_method_def imp mr wrapper_method_ref pInstr token of
                    (cs, r) \<Rightarrow> (Call_GetMemberRefProps (m_Arg32 pInstr) # cs, r))
               else ([Call_GetMemberRefProps (m_Arg32 pInstr)], Some (pInstr, False)))
        else use_method_def imp mr wrapper_method_ref pInstr (m_Arg32 pInstr)
      else ([], Some (pInstr, False)))"

subsection \<open>\<open>JITCompilationStarted\<close>: the scan of one replacement\<close>

text \<open>
  The loop over the instruction list (lines 245 to 340), with the flag \<open>modified\<close> as it
  stands when the loop reaches the rest of the list. \<open>None\<close>: the callback returned from
  inside the loop. \<open>Some (il, modified)\<close>: the loop ended, with the list as the loop left it.
\<close>

fun scan_instrs ::
  "IMetaDataImport \<Rightarrow> method_replacement \<Rightarrow> mdToken \<Rightarrow> 'z ILInstr_scheme list \<Rightarrow> bool
     \<Rightarrow> 'z call list \<times> ('z ILInstr_scheme list \<times> bool) option" where
  "scan_instrs imp mr wrapper_method_ref [] modified = ([], Some ([], modified))"
| "scan_instrs imp mr wrapper_method_ref (pInstr # rest) modified =
     (case visit_instr imp mr wrapper_method_ref pInstr of
        (cs, None) \<Rightarrow> (cs, None)
      | (cs, Some (pInstr', rewritten)) \<Rightarrow>
          (case scan_instrs imp mr wrapper_method_ref rest (modified \<or> rewritten) of
             (cs', None) \<Rightarrow> (cs @ cs', None)
           | (cs', Some (rest', modified')) \<Rightarrow>
               (cs @ cs', Some (pInstr' # rest', modified'))))"

text \<open>The test of lines 218 to 222 on the caller of the method being compiled.\<close>

definition caller_matches :: "method_replacement \<Rightarrow> FunctionInfo \<Rightarrow> bool" where
  "caller_matches mr caller =
     ((type_name (caller_method mr) = [] \<or>
       type_name (caller_method mr) = type_info_name (function_type caller)) \<and>
      (method_name (caller_method mr) = [] \<or>
       method_name (caller_method mr) = function_name caller))"

text \<open>
  The body of the loop over the replacements of an integration (lines 215 to 346).
  \<open>Some hr\<close>: the callback returned \<open>hr\<close>. \<open>None\<close>: the body ended and the loop goes on.
\<close>

definition replace_calls ::
  "'z runtime \<Rightarrow> ModuleMetadata \<Rightarrow> ModuleID \<Rightarrow> mdToken \<Rightarrow> FunctionInfo \<Rightarrow> method_replacement
     \<Rightarrow> 'z call list \<times> HRESULT option" where
  "replace_calls rt moduleMetadata moduleId functionToken caller mr =
     (if caller_matches mr caller
      then
        (let wrapper_method_key = get_method_cache_key (wrapper_method mr) in
         case TryGetWrapperMemberRef moduleMetadata wrapper_method_key of
           None \<Rightarrow> ([Call_TryGetWrapperMemberRef wrapper_method_key], Some S_OK)
         | Some wrapper_method_ref \<Rightarrow>
             (case rewriter_Import rt moduleId functionToken of
                (hr, il) \<Rightarrow>
                  if FAILED hr
                  then ([Call_TryGetWrapperMemberRef wrapper_method_key, Call_Import], Some S_OK)
                  else
                    (case scan_instrs (metadata_import moduleMetadata) mr wrapper_method_ref
                            il False of
                       (cs, None) \<Rightarrow>
                         (Call_TryGetWrapperMemberRef wrapper_method_key # Call_Import # cs,
                          Some S_OK)
                     | (cs, Some (il', modified)) \<Rightarrow>
                         if modified
                         then (Call_TryGetWrapperMemberRef wrapper_method_key # Call_Import # cs
                                 @ [Call_Export il'],
                               Some S_OK)
                         else (Call_TryGetWrapperMemberRef wrapper_method_key # Call_Import # cs,
                               None))))
      else ([], None))"

text \<open>The loop over the replacements of one integration (line 214).\<close>

fun replacements_loop ::
  "'z runtime \<Rightarrow> ModuleMetadata \<Rightarrow> ModuleID \<Rightarrow> mdToken \<Rightarrow> FunctionInfo
     \<Rightarrow> method_replacement list \<Rightarrow> 'z call list \<times> HRESULT option" where
  "replacements_loop rt moduleMetadata moduleId functionToken caller [] = ([], None)"
| "replacements_loop rt moduleMetadata moduleId functionToken caller (mr # mrs) =
     (case replace_calls rt moduleMetadata moduleId functionToken caller mr of
        (cs, Some hr) \<Rightarrow> (cs, Some hr)
      | (cs, None) \<Rightarrow>
          (case replacements_loop rt moduleMetadata moduleId functionToken caller mrs of
             (cs', r) \<Rightarrow> (cs @ cs', r)))"

text \<open>The loop over the integrations of the module (line 213).\<close>

fun integrations_loop ::
  "'z runtime \<Rightarrow> ModuleMetadata \<Rightarrow> ModuleID \<Rightarrow> mdToken \<Rightarrow> FunctionInfo
     \<Rightarrow> integration list \<Rightarrow> 'z call list \<times> HRESULT option" where
  "integrations_loop rt moduleMetadata moduleId functionToken caller [] = ([], None)"
| "integrations_loop rt moduleMetadata moduleId functionToken caller (i # is) =
     (case replacements_loop rt moduleMetadata moduleId functionToken caller
             (method_replacements i) of
        (cs, Some hr) \<Rightarrow> (cs, Some hr)
      | (cs, None) \<Rightarrow>
          (case integrations_loop rt moduleMetadata moduleId functionToken caller is of
             (cs', r) \<Rightarrow> (cs @ cs', r)))"

text \<open>
  The callback (lines 186 to 351): its calls to the rewriter and to the metadata of the
  module, and the \<open>HRESULT\<close> it returns. The flag \<open>fIsSafeToBlock\<close> is not read.
\<close>

definition JITCompilationStarted ::
  "'z runtime \<Rightarrow> CorProfiler \<Rightarrow> FunctionID \<Rightarrow> 'z call list \<times> HRESULT" where
  "JITCompilationStarted rt this functionId =
     (case info_GetFunctionInfo rt functionId of
        (hr, moduleId, functionToken) \<Rightarrow>
          if FAILED hr then ([], S_OK)
          else
            (case module_id_to_info_map this moduleId of
               None \<Rightarrow> ([], S_OK)
             | Some moduleMetadata \<Rightarrow>
                 (let caller = GetFunctionInfo rt (metadata_import moduleMetadata) functionToken
                  in if \<not> isvalid caller then ([], S_OK)
                     else
                       (case integrations_loop rt moduleMetadata moduleId functionToken caller
                               (integrations moduleMetadata) of
                          (cs, Some hr) \<Rightarrow> (cs, hr)
                        | (cs, None) \<Rightarrow> (cs, S_OK)))))"

subsection \<open>\<open>ModuleLoadFinished\<close> and \<open>ModuleUnloadFinished\<close>\<close>

text \<open>
  The loops of lines 109 to 117: for every replacement of an integration whose caller
  assembly name is empty or is the name of the loading assembly, \<open>push_back\<close> appends the
  integration to \<open>enabledIntegrations\<close>.
\<close>

fun push_enabled :: "string \<Rightarrow> integration \<Rightarrow> method_replacement list \<Rightarrow> integration list" where
  "push_enabled assembly_name i [] = []"
| "push_enabled assembly_name i (mr # mrs) =
     (if name (assembly (caller_method mr)) = [] \<or>
         name (assembly (caller_method mr)) = assembly_name
      then i # push_enabled assembly_name i mrs
      else push_enabled assembly_name i mrs)"

fun enabledIntegrations :: "string \<Rightarrow> integration list \<Rightarrow> integration list" where
  "enabledIntegrations assembly_name [] = []"
| "enabledIntegrations assembly_name (i # is) =
     push_enabled assembly_name i (method_replacements i) @ enabledIntegrations assembly_name is"

text \<open>
  Modelled from the spec: \<open>MetadataBuilder::StoreWrapperMethodRef\<close> is defined in
  \<open>metadata_builder.cpp\<close>, which is not among the sources. By section 4.1 of the spec it
  returns at once when the cache of the module already has a handle for the key of the
  wrapper; otherwise it emits a member reference, and on success inserts the new handle
  into the cache. A failed emission leaves the cache as it was and is the result.
\<close>

definition StoreWrapperMethodRef ::
  "'z runtime \<Rightarrow> ModuleMetadata \<Rightarrow> method_replacement \<Rightarrow> HRESULT \<times> ModuleMetadata" where
  "StoreWrapperMethodRef rt md mr =
     (let key = get_method_cache_key (wrapper_method mr) in
      case TryGetWrapperMemberRef md key of
        Some member_ref \<Rightarrow> (S_OK, md)
      | None \<Rightarrow>
          (case DefineMemberRef rt (wrapper_method mr) of
             (hr, member_ref) \<Rightarrow>
               if FAILED hr then (hr, md)
               else (S_OK, md\<lparr>wrapper_refs := (wrapper_refs md)(key \<mapsto> member_ref)\<rparr>)))"

text \<open>The calls of the module load to the \<open>MetadataBuilder\<close>, as they appear in its trace.\<close>

datatype emit_call =
    Call_EmitAssemblyRef assembly_reference
  | Call_StoreWrapperMethodRef method_replacement

text \<open>
  The loops of lines 155 to 167 over the replacements of the enabled integrations, with
  the calls they make. \<open>None\<close>: a \<open>RETURN_OK_IF_FAILED\<close> returned from the callback.
  \<open>Some md\<close>: the loops ended, with the module metadata as the builder left it.
\<close>

fun emit_replacements ::
  "'z runtime \<Rightarrow> ModuleMetadata \<Rightarrow> method_replacement list
     \<Rightarrow> emit_call list \<times> ModuleMetadata option" where
  "emit_replacements rt md [] = ([], Some md)"
| "emit_replacements rt md (mr # mrs) =
     (if FAILED (EmitAssemblyRef rt (assembly (wrapper_method mr)))
      then ([Call_EmitAssemblyRef (assembly (wrapper_method mr))], None)
      else (case StoreWrapperMethodRef rt md mr of
              (hr, md') \<Rightarrow>
                if FAILED hr
                then ([Call_EmitAssemblyRef (assembly (wrapper_method mr)),
                       Call_StoreWrapperMethodRef mr], None)
                else (case emit_replacements rt md' mrs of
                        (cs, r) \<Rightarrow>
                          (Call_EmitAssemblyRef (assembly (wrapper_method mr))
                             # Call_StoreWrapperMethodRef mr # cs, r))))"

fun emit_integrations ::
  "'z runtime \<Rightarrow> ModuleMetadata \<Rightarrow> integration list
     \<Rightarrow> emit_call list \<times> ModuleMetadata option" where
  "emit_integrations rt md [] = ([], Some md)"
| "emit_integrations rt md (i # is) =
     (case emit_replacements rt md (method_replacements i) of
        (cs, None) \<Rightarrow> (cs, None)
      | (cs, Some md') \<Rightarrow>
          (case emit_integrations rt md' is of (cs', r) \<Rightarrow> (cs @ cs', r)))"

text \<open>
  The callback (lines 82 to 172): its calls to the \<open>MetadataBuilder\<close> and the \<open>HRESULT\<close>
  it returns, and the profiler after it. \<open>hrStatus\<close> is not read. A new \<open>ModuleMetadata\<close>
  has an empty cache of wrapper references; \<open>module_id_to_info_map_.Update\<close> stores the
  record under the module id.
\<close>

definition ModuleLoadFinished ::
  "'z runtime \<Rightarrow> CorProfiler \<Rightarrow> ModuleID \<Rightarrow> (emit_call list \<times> HRESULT) \<times> CorProfiler" where
  "ModuleLoadFinished rt this moduleId =
     (case GetModuleInfo2 rt moduleId of
        (hr, assembly_id, dwModuleFlags) \<Rightarrow>
          if FAILED hr then (([], LOG_IFFAILEDRET_code rt hr), this)
          else if dwModuleFlags AND COR_PRF_MODULE_WINDOWS_RUNTIME \<noteq> 0 then (([], S_OK), this)
          else
            (let assembly_name = GetAssemblyName rt assembly_id;
                 enabled = enabledIntegrations assembly_name (prof_integrations this)
             in if enabled = [] then (([], S_OK), this)
                else
                  (case GetModuleMetaData rt moduleId of
                     (hr, metadataImport) \<Rightarrow>
                       if FAILED hr then (([], LOG_IFFAILEDRET_code rt hr), this)
                       else
                         (case GetModuleFromScope metadataImport of
                            (hr, module) \<Rightarrow>
                              if FAILED hr then (([], LOG_IFFAILEDRET_code rt hr), this)
                              else
                                (case emit_integrations rt
                                        \<lparr>metadata_import = metadataImport,
                                         assemblyName = assembly_name,
                                         integrations = enabled,
                                         wrapper_refs = Map.empty\<rparr>
                                        enabled of
                                   (cs, None) \<Rightarrow> ((cs, S_OK), this)
                                 | (cs, Some moduleMetadata) \<Rightarrow>
                                     ((cs, S_OK),
                                      this\<lparr>module_id_to_info_map :=
                                        (module_id_to_info_map this)
                                          (moduleId \<mapsto> moduleMetadata)\<rparr>))))))"

text \<open>The callback of lines 174 to 184.\<close>

definition ModuleUnloadFinished :: "CorProfiler \<Rightarrow> ModuleID \<Rightarrow> HRESULT \<times> CorProfiler" where
  "ModuleUnloadFinished this moduleId =
     (case module_id_to_info_map this moduleId of
        Some metadata \<Rightarrow>
          (S_OK, this\<lparr>module_id_to_info_map := (module_id_to_info_map this)(moduleId := None)\<rparr>)
      | None \<Rightarrow> (S_OK, this))"

subsection \<open>Notions the properties are stated with\<close>

text \<open>The replacements a module record holds, in the order the compilation loops visit them.\<close>

definition enabled_replacements :: "ModuleMetadata \<Rightarrow> method_replacement list" where
  "enabled_replacements md = concat (map method_replacements (integrations md))"

text \<open>The instruction streams a trace hands to \<open>ILRewriter::Export\<close>, in order.\<close>

fun exports :: "'z call list \<Rightarrow> 'z ILInstr_scheme list list" where
  "exports [] = []"
| "exports (Call_Export il # cs) = il # exports cs"
| "exports (c # cs) = exports cs"

text \<open>A call of a trace is a metadata read that the import interface answers with a failure.\<close>

fun read_failed :: "IMetaDataImport \<Rightarrow> 'z call \<Rightarrow> bool" where
  "read_failed imp (Call_GetMemberRefProps tk) = FAILED (fst (GetMemberRefProps imp tk))"
| "read_failed imp (Call_GetTypeRefProps tk) = FAILED (fst (GetTypeRefProps imp tk))"
| "read_failed imp (Call_GetMethodProps tk) = FAILED (fst (GetMethodProps imp tk))"
| "read_failed imp (Call_GetTypeDefProps tk) = FAILED (fst (GetTypeDefProps imp tk))"
| "read_failed imp c = False"

text \<open>
  The resolver as section 4.3 of the specification words it, for comparison with the scan:
  the declaring type name and the method name of the target of an operand token, or
  \<open>None\<close> when the member name is not the expected one, when the parent scope is of an
  unsupported kind, or when a read fails.
\<close>

definition spec_resolve :: "IMetaDataImport \<Rightarrow> mdToken \<Rightarrow> string \<Rightarrow> (string \<times> string) option" where
  "spec_resolve imp operandToken expectedMethodName =
     (if TypeFromToken operandToken = mdtMemberRef
      then
        (case GetMemberRefProps imp operandToken of
           (hr, parent, memberName) \<Rightarrow>
             if FAILED hr \<or> memberName \<noteq> expectedMethodName then None
             else if TypeFromToken parent = mdtTypeRef
             then (case GetTypeRefProps imp parent of
                     (hr', parentName) \<Rightarrow>
                       if FAILED hr' then None else Some (parentName, memberName))
             else if TypeFromToken parent = mdtTypeDef
             then (case GetTypeDefProps imp parent of
                     (hr', parentName) \<Rightarrow>
                       if FAILED hr' then None else Some (parentName, memberName))
             else if TypeFromToken parent = mdtMethodDef
             then (case GetMethodProps imp parent of
                     (hr', owner, canonicalMethodName) \<Rightarrow>
                       if FAILED hr' then None
                       else (case GetTypeDefProps imp owner of
                               (hr'', ownerTypeName) \<Rightarrow>
                                 if FAILED hr'' then None
                                 else Some (ownerTypeName, canonicalMethodName)))
             else None)
      else if TypeFromToken operandToken = mdtMethodDef
      then
        (case GetMethodProps imp operandToken of
           (hr, owner, methodName) \<Rightarrow>
             if FAILED hr \<or> methodName \<noteq> expectedMethodName then None
             else (case GetTypeDefProps imp owner of
                     (hr', typeName) \<Rightarrow>
                       if FAILED hr' then None else Some (typeName, methodName)))
      else None)"

text \<open>
  A call site of the replacement: a direct or virtual call whose operand resolves to the
  target type name and the target method name of the replacement.
\<close>

definition is_call_site :: "IMetaDataImport \<Rightarrow> method_replacement \<Rightarrow> 'z ILInstr_scheme \<Rightarrow> bool" where
  "is_call_site imp mr pInstr =
     ((m_opcode pInstr = CEE_CALL \<or> m_opcode pInstr = CEE_CALLVIRT) \<and>
      spec_resolve imp (m_Arg32 pInstr) (method_name (target_method mr)) =
        Some (type_name (target_method mr), method_name (target_method mr)))"

text \<open>The rewritten form of an instruction: a direct call of the wrapper reference.\<close>

definition redirect :: "mdToken \<Rightarrow> 'z ILInstr_scheme \<Rightarrow> 'z ILInstr_scheme" where
  "redirect wrapper_method_ref pInstr = pInstr\<lparr>m_opcode := CEE_CALL, m_Arg32 := wrapper_method_ref\<rparr>"

text \<open>
  The method pattern of section 3 of the specification: each of the three fields is a
  wildcard when empty and must equal the component of the identity otherwise.
\<close>

definition spec_pattern_matches :: "method_reference \<Rightarrow> string \<Rightarrow> string \<Rightarrow> string \<Rightarrow> bool" where
  "spec_pattern_matches p assembly_name declaring_type method =
     ((name (assembly p) = [] \<or> name (assembly p) = assembly_name) \<and>
      (type_name p = [] \<or> type_name p = declaring_type) \<and>
      (method_name p = [] \<or> method_name p = method))"

subsection \<open>A sample module\<close>

text \<open>
  The inputs the properties below are exercised on. The assembly \<open>A\<close> has one module; its
  metadata names \<open>Sample.Math::Add\<close>, \<open>Sub\<close> and \<open>Mul\<close> through member references and
  method definitions, and one member reference cannot be read. The catalog is one
  integration of three replacements, for \<open>Mul\<close>, \<open>Add\<close> and \<open>Sub\<close> in this order, whose
  caller assembly names are \<open>B\<close>, \<open>A\<close> and empty. Four method bodies are compiled: function 7
  calls \<open>Add\<close> and \<open>Sub\<close> once each; function 8 calls \<open>Add\<close> at three sites and
  \<open>Sample.Text::Add\<close> at a fourth; function 9 calls \<open>Mul\<close> and then the unreadable member
  reference; every other function calls \<open>Mul\<close> once.
\<close>

definition sample_import :: IMetaDataImport where
  "sample_import =
     \<lparr>GetMemberRefProps = (\<lambda>tk.
        if tk = 0x0A000001 then (S_OK, 0x01000001, ''Add'')
        else if tk = 0x0A000002 then (S_OK, 0x01000001, ''Sub'')
        else if tk = 0x0A000003 then (E_FAIL, 0, [])
        else if tk = 0x0A000004 then (S_OK, 0x02000001, ''Add'')
        else if tk = 0x0A000005 then (S_OK, 0x01000002, ''Add'')
        else (S_OK, 0x01000001, ''Mul'')),
      GetTypeRefProps = (\<lambda>tk.
        if tk = 0x01000001 then (S_OK, ''Sample.Math'') else (S_OK, ''Sample.Text'')),
      GetMethodProps = (\<lambda>tk.
        if tk = 0x06000001 then (S_OK, 0x02000001, ''Add'')
        else if tk = 0x06000002 then (S_OK, 0x02000001, ''Sub'')
        else (S_OK, 0x02000002, ''Foo'')),
      GetTypeDefProps = (\<lambda>tk.
        if tk = 0x02000001 then (S_OK, ''Sample.Math'') else (S_OK, ''C'')),
      GetModuleFromScope = (S_OK, 1)\<rparr>"

definition sample_wrapper :: "string \<Rightarrow> method_reference" where
  "sample_wrapper m =
     \<lparr>assembly = \<lparr>name = ''Wrap''\<rparr>, type_name = ''Wrapper.Math'', method_name = m\<rparr>"

definition sample_replacement :: "string \<Rightarrow> string \<Rightarrow> method_replacement" where
  "sample_replacement caller_assembly m =
     \<lparr>caller_method = \<lparr>assembly = \<lparr>name = caller_assembly\<rparr>, type_name = [], method_name = []\<rparr>,
      target_method = \<lparr>assembly = \<lparr>name = []\<rparr>, type_name = ''Sample.Math'', method_name = m\<rparr>,
      wrapper_method = sample_wrapper m\<rparr>"

definition sample_integration :: integration where
  "sample_integration =
     \<lparr>integration_name = ''Math'',
      method_replacements =
        [sample_replacement ''B'' ''Mul'', sample_replacement ''A'' ''Add'',
         sample_replacement [] ''Sub'']\<rparr>"

definition instr :: "32 word \<Rightarrow> mdToken \<Rightarrow> ILInstr" where
  "instr opc arg = \<lparr>m_opcode = opc, m_Arg32 = arg\<rparr>"

definition sample_body :: "mdToken \<Rightarrow> ILInstr list" where
  "sample_body functionToken =
     (if functionToken = 0x06000010
      then [instr 0x02 0, instr 0x6F 0x0A000001, instr 0x28 0x0A000002, instr 0x2A 0]
      else if functionToken = 0x06000011
      then [instr 0x6F 0x0A000001, instr 0x28 0x06000001, instr 0x28 0x0A000004,
            instr 0x28 0x0A000005]
      else if functionToken = 0x06000012
      then [instr 0x28 0x0A000006, instr 0x28 0x0A000003]
      else [instr 0x28 0x0A000006])"

definition sample_runtime :: "unit runtime" where
  "sample_runtime =
     \<lparr>info_GetFunctionInfo = (\<lambda>functionId.
        if functionId = 7 then (S_OK, 1, 0x06000010)
        else if functionId = 8 then (S_OK, 1, 0x06000011)
        else if functionId = 9 then (S_OK, 1, 0x06000012)
        else (S_OK, 1, 0x06000013)),
      GetFunctionInfo = (\<lambda>imp functionToken.
        \<lparr>isvalid = True, function_type = \<lparr>type_info_name = ''C''\<rparr>, function_name = ''Foo''\<rparr>),
      rewriter_Import = (\<lambda>moduleId functionToken. (S_OK, sample_body functionToken)),
      GetModuleInfo2 = (\<lambda>moduleId. (S_OK, 5, 0x01)),
      GetAssemblyName = (\<lambda>assembly_id. ''A''),
      GetModuleMetaData = (\<lambda>moduleId. (S_OK, sample_import)),
      EmitAssemblyRef = (\<lambda>a. S_OK),
      DefineMemberRef = (\<lambda>m.
        if method_name m = ''Mul'' then (S_OK, 0x0A000010)
        else if method_name m = ''Add'' then (S_OK, 0x0A000011)
        else (S_OK, 0x0A000012)),
      LOG_IFFAILEDRET_code = (\<lambda>hr. hr)\<rparr>"

definition sample_profiler :: CorProfiler where
  "sample_profiler = \<lparr>prof_integrations = [sample_integration], module_id_to_info_map = Map.empty\<rparr>"

definition sample_module :: ModuleMetadata where
  "sample_module =
     \<lparr>metadata_import = sample_import,
      assemblyName = ''A'',
      integrations = [sample_integration, sample_integration],
      wrapper_refs =
        [get_method_cache_key (sample_wrapper ''Mul'') \<mapsto> 0x0A000010,
         get_method_cache_key (sample_wrapper ''Add'') \<mapsto> 0x0A000011,
         get_method_cache_key (sample_wrapper ''Sub'') \<mapsto> 0x0A000012]\<rparr>"

text \<open>The profiler once the sample module is loaded, and the caller every compilation has.\<close>

definition sample_loaded_profiler :: CorProfiler where
  "sample_loaded_profiler = sample_profiler\<lparr>module_id_to_info_map := [1 \<mapsto> sample_module]\<rparr>"

definition sample_caller :: FunctionInfo where
  "sample_caller =
     \<lparr>isvalid = True, function_type = \<lparr>type_info_name = ''C''\<rparr>, function_name = ''Foo''\<rparr>"

text \<open>The sample module as a record whose cache has lost the reference of the \<open>Add\<close> wrapper.\<close>

definition sample_module_without_Add :: ModuleMetadata where
  "sample_module_without_Add =
     sample_module\<lparr>wrapper_refs :=
       (wrapper_refs sample_module)(get_method_cache_key (sample_wrapper ''Add'') := None)\<rparr>"

text \<open>The sample runtime, except that the member reference of the \<open>Add\<close> wrapper cannot be emitted.\<close>

definition sample_runtime_failing_Add :: "unit runtime" where
  "sample_runtime_failing_Add =
     sample_runtime\<lparr>DefineMemberRef := (\<lambda>m.
        if method_name m = ''Add'' then (E_FAIL, 0) else DefineMemberRef sample_runtime m)\<rparr>"

section \<open>The scan of one instruction\<close>

text \<open>
  The body of the instruction loop, block by block: what each labelled block computes when
  it reaches its end, and that the whole body rewrites an instruction exactly when the
  instruction is a call site of the replacement.
\<close>

lemma compare_type_and_method_names_eq:
  "compare_type_and_method_names mr w i tn nm =
     (if type_name (target_method mr) = tn \<and> method_name (target_method mr) = nm
      then (redirect w i, True) else (i, False))"
  by (simp add: compare_type_and_method_names_def redirect_def)

lemma use_type_def_Some:
  assumes "use_type_def imp mr w i td nm = (cs, Some (i', b))"
  shows "\<not> FAILED (fst (GetTypeDefProps imp td))"
    and "b = (type_name (target_method mr) = snd (GetTypeDefProps imp td) \<and>
              method_name (target_method mr) = nm)"
    and "i' = (if b then redirect w i else i)"
  using assms
  by (simp_all add: use_type_def_def compare_type_and_method_names_eq case_prod_beta
      split: if_splits)

lemma use_method_def_Some:
  assumes "use_method_def imp mr w i md = (cs, Some (i', b))"
  shows "\<not> FAILED (fst (GetMethodProps imp md))"
    and "b = (method_name (target_method mr) = snd (snd (GetMethodProps imp md)) \<and>
              \<not> FAILED (fst (GetTypeDefProps imp (fst (snd (GetMethodProps imp md))))) \<and>
              type_name (target_method mr) =
                snd (GetTypeDefProps imp (fst (snd (GetMethodProps imp md)))))"
    and "i' = (if b then redirect w i else i)"
  using assms
  by (auto simp add: use_method_def_def use_type_def_def compare_type_and_method_names_eq case_prod_beta
      split: if_splits)


lemma spec_resolve_MemberRef:
  "TypeFromToken tk = mdtMemberRef \<Longrightarrow>
   spec_resolve imp tk expected =
     (let r = GetMemberRefProps imp tk; parent = fst (snd r); nm = snd (snd r) in
      if FAILED (fst r) \<or> nm \<noteq> expected then None
      else if TypeFromToken parent = mdtTypeRef
      then (if FAILED (fst (GetTypeRefProps imp parent)) then None
            else Some (snd (GetTypeRefProps imp parent), nm))
      else if TypeFromToken parent = mdtTypeDef
      then (if FAILED (fst (GetTypeDefProps imp parent)) then None
            else Some (snd (GetTypeDefProps imp parent), nm))
      else if TypeFromToken parent = mdtMethodDef
      then (if FAILED (fst (GetMethodProps imp parent)) then None
            else if FAILED (fst (GetTypeDefProps imp (fst (snd (GetMethodProps imp parent)))))
            then None
            else Some (snd (GetTypeDefProps imp (fst (snd (GetMethodProps imp parent)))),
                       snd (snd (GetMethodProps imp parent))))
      else None)"
  by (simp add: spec_resolve_def case_prod_beta Let_def)

lemma spec_resolve_MethodDef:
  "TypeFromToken tk \<noteq> mdtMemberRef \<Longrightarrow> TypeFromToken tk = mdtMethodDef \<Longrightarrow>
   spec_resolve imp tk expected =
     (let r = GetMethodProps imp tk in
      if FAILED (fst r) \<or> snd (snd r) \<noteq> expected then None
      else if FAILED (fst (GetTypeDefProps imp (fst (snd r)))) then None
      else Some (snd (GetTypeDefProps imp (fst (snd r))), snd (snd r)))"
  by (simp add: spec_resolve_def case_prod_beta Let_def)

lemma spec_resolve_other:
  "TypeFromToken tk \<noteq> mdtMemberRef \<Longrightarrow> TypeFromToken tk \<noteq> mdtMethodDef \<Longrightarrow>
   spec_resolve imp tk expected = None"
  by (simp add: spec_resolve_def)


lemma visit_instr_not_call:
  "\<not> ((m_opcode i = CEE_CALL \<or> m_opcode i = CEE_CALLVIRT) \<and>
         (TypeFromToken (m_Arg32 i) = mdtMemberRef \<or> TypeFromToken (m_Arg32 i) = mdtMethodDef))
   \<Longrightarrow> visit_instr imp mr w i = ([], Some (i, False))"
  unfolding visit_instr_def by (rule if_not_P)

lemma visit_instr_MethodDef:
  "m_opcode i = CEE_CALL \<or> m_opcode i = CEE_CALLVIRT \<Longrightarrow>
   TypeFromToken (m_Arg32 i) \<noteq> mdtMemberRef \<Longrightarrow> TypeFromToken (m_Arg32 i) = mdtMethodDef \<Longrightarrow>
   visit_instr imp mr w i = use_method_def imp mr w i (m_Arg32 i)"
  unfolding visit_instr_def by simp


lemma visit_instr_MemberRef:
  "m_opcode i = CEE_CALL \<or> m_opcode i = CEE_CALLVIRT \<Longrightarrow>
   TypeFromToken (m_Arg32 i) = mdtMemberRef \<Longrightarrow>
   visit_instr imp mr w i =
     (let r = GetMemberRefProps imp (m_Arg32 i); token = fst (snd r); nm = snd (snd r) in
      if FAILED (fst r) then ([Call_GetMemberRefProps (m_Arg32 i)], None)
      else if method_name (target_method mr) \<noteq> nm
      then ([Call_GetMemberRefProps (m_Arg32 i)], Some (i, False))
      else if TypeFromToken token = mdtTypeRef
      then ([Call_GetMemberRefProps (m_Arg32 i), Call_GetTypeRefProps token],
            if FAILED (fst (GetTypeRefProps imp token)) then None
            else Some (compare_type_and_method_names mr w i (snd (GetTypeRefProps imp token)) nm))
      else if TypeFromToken token = mdtTypeDef
      then (Call_GetMemberRefProps (m_Arg32 i) # fst (use_type_def imp mr w i token nm),
            snd (use_type_def imp mr w i token nm))
      else if TypeFromToken token = mdtMethodDef
      then (Call_GetMemberRefProps (m_Arg32 i) # fst (use_method_def imp mr w i token),
            snd (use_method_def imp mr w i token))
      else ([Call_GetMemberRefProps (m_Arg32 i)], Some (i, False)))"
  unfolding visit_instr_def by (simp add: case_prod_beta Let_def)

lemma visit_instr_Some:
  assumes v: "visit_instr imp mr w i = (cs, Some (i', b))"
  shows "b = is_call_site imp mr i \<and> i' = (if b then redirect w i else i)"
proof (cases "(m_opcode i = CEE_CALL \<or> m_opcode i = CEE_CALLVIRT) \<and>
         (TypeFromToken (m_Arg32 i) = mdtMemberRef \<or> TypeFromToken (m_Arg32 i) = mdtMethodDef)")
  case False
  from v visit_instr_not_call [OF False] have "i' = i" "b = False" by simp_all
  moreover from False have "\<not> is_call_site imp mr i"
    unfolding is_call_site_def by (cases "m_opcode i = CEE_CALL \<or> m_opcode i = CEE_CALLVIRT")
      (simp_all add: spec_resolve_other)
  ultimately show ?thesis by simp
next
  case call: True
  then have op: "m_opcode i = CEE_CALL \<or> m_opcode i = CEE_CALLVIRT" by simp
  show ?thesis
  proof (cases "TypeFromToken (m_Arg32 i) = mdtMemberRef")
    case False
    with call have md: "TypeFromToken (m_Arg32 i) = mdtMethodDef" by simp
    from v have u: "use_method_def imp mr w i (m_Arg32 i) = (cs, Some (i', b))"
      by (simp add: visit_instr_MethodDef [OF op False md])
    have "is_call_site imp mr i = b"
      unfolding is_call_site_def use_method_def_Some(2) [OF u]
      using op use_method_def_Some(1) [OF u]
      by (auto simp add: spec_resolve_MethodDef [OF False md] Let_def)
    with use_method_def_Some(3) [OF u] show ?thesis by simp
  next
    case True
    define r where "r = GetMemberRefProps imp (m_Arg32 i)"
    define token where "token = fst (snd r)"
    define nm where "nm = snd (snd r)"
    note vi = visit_instr_MemberRef [OF op True, of imp mr w, folded r_def, unfolded Let_def,
        folded token_def nm_def]
    note sr = spec_resolve_MemberRef [OF True, of imp "method_name (target_method mr)",
        folded r_def, unfolded Let_def, folded token_def nm_def]
    from v vi have nf: "\<not> FAILED (fst r)" by (auto split: if_splits)
    show ?thesis
    proof (cases "method_name (target_method mr) = nm")
      case False
      with v vi nf have "i' = i" "b = False" by simp_all
      moreover from False nf have "\<not> is_call_site imp mr i"
        unfolding is_call_site_def sr by auto
      ultimately show ?thesis by simp
    next
      case nmeq: True
      consider (tref) "TypeFromToken token = mdtTypeRef"
        | (tdef) "TypeFromToken token \<noteq> mdtTypeRef" "TypeFromToken token = mdtTypeDef"
        | (mdef) "TypeFromToken token \<noteq> mdtTypeRef" "TypeFromToken token \<noteq> mdtTypeDef"
                 "TypeFromToken token = mdtMethodDef"
        | (other) "TypeFromToken token \<noteq> mdtTypeRef" "TypeFromToken token \<noteq> mdtTypeDef"
                 "TypeFromToken token \<noteq> mdtMethodDef"
        by blast
      then show ?thesis
      proof cases
        case tref
        with v vi nf nmeq have
          "\<not> FAILED (fst (GetTypeRefProps imp token))"
          "(i', b) = compare_type_and_method_names mr w i (snd (GetTypeRefProps imp token)) nm"
          by (simp_all split: if_splits)
        with tref nf nmeq op show ?thesis
          unfolding is_call_site_def sr compare_type_and_method_names_eq
          by (auto split: if_splits)
      next
        case tdef
        with v vi nf nmeq have u: "use_type_def imp mr w i token nm = (tl cs, Some (i', b))"
          by (auto simp: prod_eq_iff)
        from tdef nf nmeq op use_type_def_Some [OF u] show ?thesis
          unfolding is_call_site_def sr by auto
      next
        case mdef
        with v vi nf nmeq have u: "use_method_def imp mr w i token = (tl cs, Some (i', b))"
          by (auto simp: prod_eq_iff)
        from mdef nf nmeq op use_method_def_Some [OF u] show ?thesis
          unfolding is_call_site_def sr by auto
      next
        case other
        with v vi nf nmeq have "i' = i" "b = False" by simp_all
        moreover from other nf nmeq have "\<not> is_call_site imp mr i"
          unfolding is_call_site_def sr by auto
        ultimately show ?thesis by simp
      qed
    qed
  qed
qed

section \<open>Traces of the scan\<close>

text \<open>
  The scan never calls \<open>Export\<close>, and a read that fails is the last thing it does.
\<close>

lemma exports_append: "exports (xs @ ys) = exports xs @ exports ys"
  by (induction xs rule: exports.induct) simp_all

lemma exports_set: "il \<in> set (exports cs) \<longleftrightarrow> Call_Export il \<in> set cs"
  by (induction cs rule: exports.induct) auto

lemma use_type_def_calls:
  "fst (use_type_def imp mr w i td nm) = [Call_GetTypeDefProps td]"
  by (simp add: use_type_def_def case_prod_beta)

lemma use_type_def_None:
  "snd (use_type_def imp mr w i td nm) = None \<longleftrightarrow> FAILED (fst (GetTypeDefProps imp td))"
  by (simp add: use_type_def_def case_prod_beta)

lemma use_method_def_calls:
  "fst (use_method_def imp mr w i md) =
     (if \<not> FAILED (fst (GetMethodProps imp md)) \<and>
         method_name (target_method mr) = snd (snd (GetMethodProps imp md))
      then [Call_GetMethodProps md, Call_GetTypeDefProps (fst (snd (GetMethodProps imp md)))]
      else [Call_GetMethodProps md])"
  by (simp add: use_method_def_def use_type_def_calls case_prod_beta)

lemma use_method_def_None:
  "snd (use_method_def imp mr w i md) = None \<longleftrightarrow>
     FAILED (fst (GetMethodProps imp md)) \<or>
     (method_name (target_method mr) = snd (snd (GetMethodProps imp md)) \<and>
      FAILED (fst (GetTypeDefProps imp (fst (snd (GetMethodProps imp md))))))"
  by (simp add: use_method_def_def use_type_def_None case_prod_beta)

lemma visit_instr_exports: "exports (fst (visit_instr imp mr w i)) = []"
proof (cases "(m_opcode i = CEE_CALL \<or> m_opcode i = CEE_CALLVIRT) \<and>
         (TypeFromToken (m_Arg32 i) = mdtMemberRef \<or> TypeFromToken (m_Arg32 i) = mdtMethodDef)")
  case False
  then show ?thesis by (simp add: visit_instr_not_call)
next
  case True
  then have op: "m_opcode i = CEE_CALL \<or> m_opcode i = CEE_CALLVIRT" by simp
  show ?thesis
  proof (cases "TypeFromToken (m_Arg32 i) = mdtMemberRef")
    case False
    with True have "TypeFromToken (m_Arg32 i) = mdtMethodDef" by simp
    then show ?thesis
      by (simp add: visit_instr_MethodDef [OF op False] use_method_def_calls)
  next
    case True
    show ?thesis
      by (simp add: visit_instr_MemberRef [OF op True] Let_def use_method_def_calls
          use_type_def_calls)
  qed
qed

lemma visit_instr_reads:
  assumes "visit_instr imp mr w i = (cs, r)" and "c \<in> set cs" and "read_failed imp c"
  shows "r = None"
proof (cases "(m_opcode i = CEE_CALL \<or> m_opcode i = CEE_CALLVIRT) \<and>
         (TypeFromToken (m_Arg32 i) = mdtMemberRef \<or> TypeFromToken (m_Arg32 i) = mdtMethodDef)")
  case False
  with assms show ?thesis by (simp add: visit_instr_not_call)
next
  case True
  then have op: "m_opcode i = CEE_CALL \<or> m_opcode i = CEE_CALLVIRT" by simp
  show ?thesis
  proof (cases "TypeFromToken (m_Arg32 i) = mdtMemberRef")
    case False
    with True have md: "TypeFromToken (m_Arg32 i) = mdtMethodDef" by simp
    from assms(1) have "cs = fst (use_method_def imp mr w i (m_Arg32 i))"
      "r = snd (use_method_def imp mr w i (m_Arg32 i))"
      by (simp_all add: visit_instr_MethodDef [OF op False md])
    with assms(2,3) show ?thesis
      by (auto simp: use_method_def_calls use_method_def_None split: if_splits)
  next
    case True
    from assms(1) have "cs = fst (visit_instr imp mr w i)" "r = snd (visit_instr imp mr w i)"
      by simp_all
    with assms(2,3) show ?thesis
      unfolding visit_instr_MemberRef [OF op True] Let_def
      by (auto simp: use_method_def_calls use_method_def_None use_type_def_calls use_type_def_None
          split: if_splits)
  qed
qed

section \<open>The scan of a method body\<close>

lemma scan_instrs_Some:
  "scan_instrs imp mr w il m = (cs, Some (il', m')) \<Longrightarrow>
     il' = map (\<lambda>i. if is_call_site imp mr i then redirect w i else i) il \<and>
     m' = (m \<or> (\<exists>i\<in>set il. is_call_site imp mr i))"
proof (induction il arbitrary: m cs il' m')
  case Nil
  then show ?case by simp
next
  case (Cons i il)
  from Cons.prems obtain c1 i1 b c2 rest where
    v: "visit_instr imp mr w i = (c1, Some (i1, b))" and
    s: "scan_instrs imp mr w il (m \<or> b) = (c2, Some (rest, m'))" and
    il': "il' = i1 # rest"
    by (auto split: prod.splits option.splits)
  from visit_instr_Some [OF v] Cons.IH [OF s] il' show ?case by auto
qed

lemma scan_instrs_exports: "exports (fst (scan_instrs imp mr w il m)) = []"
proof (induction il arbitrary: m)
  case Nil
  show ?case by simp
next
  case (Cons i il)
  obtain c1 r1 where v: "visit_instr imp mr w i = (c1, r1)" by (cases "visit_instr imp mr w i")
  from visit_instr_exports [of imp mr w i] v have e1: "exports c1 = []" by simp
  show ?case
  proof (cases r1)
    case None
    with v e1 show ?thesis by simp
  next
    case (Some p)
    obtain i1 b where p: "p = (i1, b)" by (cases p)
    obtain c2 r2 where s: "scan_instrs imp mr w il (m \<or> b) = (c2, r2)"
      by (cases "scan_instrs imp mr w il (m \<or> b)")
    from Cons.IH [of "m \<or> b"] s have "exports c2 = []" by simp
    with v Some p s e1 show ?thesis
      by (cases r2) (auto simp: exports_append)
  qed
qed

lemma scan_instrs_reads:
  "scan_instrs imp mr w il m = (cs, r) \<Longrightarrow> c \<in> set cs \<Longrightarrow> read_failed imp c \<Longrightarrow> r = None"
proof (induction il arbitrary: m cs r)
  case Nil
  then show ?case by simp
next
  case (Cons i il)
  obtain c1 r1 where v: "visit_instr imp mr w i = (c1, r1)" by (cases "visit_instr imp mr w i")
  show ?case
  proof (cases r1)
    case None
    with v Cons.prems show ?thesis by simp
  next
    case (Some p)
    obtain i1 b where p: "p = (i1, b)" by (cases p)
    obtain c2 r2 where s: "scan_instrs imp mr w il (m \<or> b) = (c2, r2)"
      by (cases "scan_instrs imp mr w il (m \<or> b)")
    from Cons.prems(1) v Some p s have cs: "cs = c1 @ c2" by (cases r2) auto
    from Cons.prems(1) v Some p s have r: "r = None \<longleftrightarrow> r2 = None" by (cases r2) auto
    from visit_instr_reads [OF v] Some have "\<not> (c \<in> set c1)" using Cons.prems(3) by auto
    with cs Cons.prems(2) have "c \<in> set c2" by simp
    from Cons.IH [OF s this Cons.prems(3)] r show ?thesis by simp
  qed
qed

section \<open>One replacement\<close>

text \<open>The outcomes of the body of the replacement loop.\<close>

lemma replace_calls_cases:
  fixes rt :: "'z runtime" and md :: ModuleMetadata and mid :: ModuleID and tok :: mdToken
    and caller :: FunctionInfo and mr :: method_replacement
  obtains
    (skip) "\<not> caller_matches mr caller"
      "replace_calls rt md mid tok caller mr = ([], None)"
  | (missing) "caller_matches mr caller"
      "TryGetWrapperMemberRef md (get_method_cache_key (wrapper_method mr)) = None"
      "replace_calls rt md mid tok caller mr =
         ([Call_TryGetWrapperMemberRef (get_method_cache_key (wrapper_method mr))], Some S_OK)"
  | (import_failed) w where "caller_matches mr caller"
      "TryGetWrapperMemberRef md (get_method_cache_key (wrapper_method mr)) = Some w"
      "FAILED (fst (rewriter_Import rt mid tok))"
      "replace_calls rt md mid tok caller mr =
         ([Call_TryGetWrapperMemberRef (get_method_cache_key (wrapper_method mr)), Call_Import],
          Some S_OK)"
  | (scan_failed) w cs where "caller_matches mr caller"
      "TryGetWrapperMemberRef md (get_method_cache_key (wrapper_method mr)) = Some w"
      "\<not> FAILED (fst (rewriter_Import rt mid tok))"
      "scan_instrs (metadata_import md) mr w (snd (rewriter_Import rt mid tok)) False = (cs, None)"
      "replace_calls rt md mid tok caller mr =
         (Call_TryGetWrapperMemberRef (get_method_cache_key (wrapper_method mr)) # Call_Import # cs,
          Some S_OK)"
  | (unmodified) w cs il' where "caller_matches mr caller"
      "TryGetWrapperMemberRef md (get_method_cache_key (wrapper_method mr)) = Some w"
      "\<not> FAILED (fst (rewriter_Import rt mid tok))"
      "scan_instrs (metadata_import md) mr w (snd (rewriter_Import rt mid tok)) False =
         (cs, Some (il', False))"
      "replace_calls rt md mid tok caller mr =
         (Call_TryGetWrapperMemberRef (get_method_cache_key (wrapper_method mr)) # Call_Import # cs,
          None)"
  | (committed) w cs il' where "caller_matches mr caller"
      "TryGetWrapperMemberRef md (get_method_cache_key (wrapper_method mr)) = Some w"
      "\<not> FAILED (fst (rewriter_Import rt mid tok))"
      "scan_instrs (metadata_import md) mr w (snd (rewriter_Import rt mid tok)) False =
         (cs, Some (il', True))"
      "replace_calls rt md mid tok caller mr =
         (Call_TryGetWrapperMemberRef (get_method_cache_key (wrapper_method mr)) # Call_Import # cs
            @ [Call_Export il'],
          Some S_OK)"
proof (cases "caller_matches mr caller")
  case False
  then show ?thesis using skip by (simp add: replace_calls_def)
next
  case cm: True
  show ?thesis
  proof (cases "TryGetWrapperMemberRef md (get_method_cache_key (wrapper_method mr))")
    case None
    with cm show ?thesis using missing by (simp add: replace_calls_def)
  next
    case (Some w)
    show ?thesis
    proof (cases "FAILED (fst (rewriter_Import rt mid tok))")
      case True
      with cm Some show ?thesis using import_failed [of w]
        by (simp add: replace_calls_def case_prod_beta)
    next
      case nf: False
      obtain cs r where s:
        "scan_instrs (metadata_import md) mr w (snd (rewriter_Import rt mid tok)) False = (cs, r)"
        by (cases "scan_instrs (metadata_import md) mr w (snd (rewriter_Import rt mid tok)) False")
      show ?thesis
      proof (cases r)
        case None
        with cm Some nf s show ?thesis using scan_failed [of w cs]
          by (simp add: replace_calls_def case_prod_beta)
      next
        case (Some p)
        obtain il' b where p: "p = (il', b)" by (cases p)
        show ?thesis
        proof (cases b)
          case True
          with cm \<open>TryGetWrapperMemberRef md _ = Some w\<close> nf s Some p show ?thesis
            using committed [of w cs il'] by (simp add: replace_calls_def case_prod_beta)
        next
          case False
          with cm \<open>TryGetWrapperMemberRef md _ = Some w\<close> nf s Some p show ?thesis
            using unmodified [of w cs il'] by (simp add: replace_calls_def case_prod_beta)
        qed
      qed
    qed
  qed
qed

lemma replace_calls_result:
  "snd (replace_calls rt md mid tok caller mr) = None \<or>
   snd (replace_calls rt md mid tok caller mr) = Some S_OK"
  by (cases rule: replace_calls_cases [where rt=rt and md=md and mid=mid and tok=tok and caller=caller and mr=mr]) simp_all

lemma replace_calls_None:
  assumes "replace_calls rt md mid tok caller mr = (cs, None)"
  shows "exports cs = []" and "c \<in> set cs \<Longrightarrow> \<not> read_failed (metadata_import md) c"
proof -
  have "exports cs = [] \<and> (c \<in> set cs \<longrightarrow> \<not> read_failed (metadata_import md) c)"
  proof (cases rule: replace_calls_cases [where rt=rt and md=md and mid=mid and tok=tok and caller=caller and mr=mr])
    case (unmodified w cs' il')
    from scan_instrs_exports [of "metadata_import md" mr w "snd (rewriter_Import rt mid tok)" False]
      unmodified(4) have "exports cs' = []" by simp
    moreover have "c \<in> set cs' \<Longrightarrow> \<not> read_failed (metadata_import md) c"
      using scan_instrs_reads [OF unmodified(4)] by auto
    ultimately show ?thesis using assms unmodified(5) by auto
  qed (use assms in simp_all)
  then show "exports cs = []" and "c \<in> set cs \<Longrightarrow> \<not> read_failed (metadata_import md) c"
    by simp_all
qed

lemma replace_calls_Export:
  assumes "Call_Export il' \<in> set (fst (replace_calls rt md mid tok caller mr))"
  shows "\<exists>w cs. caller_matches mr caller \<and>
           TryGetWrapperMemberRef md (get_method_cache_key (wrapper_method mr)) = Some w \<and>
           \<not> FAILED (fst (rewriter_Import rt mid tok)) \<and>
           scan_instrs (metadata_import md) mr w (snd (rewriter_Import rt mid tok)) False =
             (cs, Some (il', True)) \<and>
           replace_calls rt md mid tok caller mr =
             (Call_TryGetWrapperMemberRef (get_method_cache_key (wrapper_method mr)) # Call_Import
                # cs @ [Call_Export il'], Some S_OK)"
proof (cases rule: replace_calls_cases [where rt=rt and md=md and mid=mid and tok=tok and caller=caller and mr=mr])
  case (scan_failed w cs)
  from scan_instrs_exports [of "metadata_import md" mr w "snd (rewriter_Import rt mid tok)" False]
    scan_failed(4) have "exports cs = []" by simp
  then have "Call_Export il' \<notin> set cs" using exports_set [of il' cs] by simp
  with assms scan_failed(5) show ?thesis by simp
next
  case (unmodified w cs il'')
  from scan_instrs_exports [of "metadata_import md" mr w "snd (rewriter_Import rt mid tok)" False]
    unmodified(4) have "exports cs = []" by simp
  then have "Call_Export il' \<notin> set cs" using exports_set [of il' cs] by simp
  with assms unmodified(5) show ?thesis by simp
next
  case (committed w cs il'')
  from scan_instrs_exports [of "metadata_import md" mr w "snd (rewriter_Import rt mid tok)" False]
    committed(4) have "exports cs = []" by simp
  then have "Call_Export il' \<notin> set cs" using exports_set [of il' cs] by simp
  with assms committed(5) have "il' = il''" by simp
  with committed show ?thesis by blast
qed (use assms in simp_all)

lemma replace_calls_exports_length:
  "length (exports (fst (replace_calls rt md mid tok caller mr))) \<le> 1"
proof (cases rule: replace_calls_cases [where rt=rt and md=md and mid=mid and tok=tok and caller=caller and mr=mr])
  case (scan_failed w cs)
  from scan_instrs_exports [of "metadata_import md" mr w "snd (rewriter_Import rt mid tok)" False]
    scan_failed(4) have "exports cs = []" by simp
  with scan_failed(5) show ?thesis by simp
next
  case (unmodified w cs il'')
  from scan_instrs_exports [of "metadata_import md" mr w "snd (rewriter_Import rt mid tok)" False]
    unmodified(4) have "exports cs = []" by simp
  with unmodified(5) show ?thesis by simp
next
  case (committed w cs il'')
  from scan_instrs_exports [of "metadata_import md" mr w "snd (rewriter_Import rt mid tok)" False]
    committed(4) have "exports cs = []" by simp
  with committed(5) show ?thesis by (simp add: exports_append)
qed simp_all

lemma replace_calls_failed_read:
  assumes "c \<in> set (fst (replace_calls rt md mid tok caller mr))"
    and "read_failed (metadata_import md) c"
  shows "exports (fst (replace_calls rt md mid tok caller mr)) = []"
proof (cases rule: replace_calls_cases [where rt=rt and md=md and mid=mid and tok=tok and caller=caller and mr=mr])
  case (scan_failed w cs)
  from scan_instrs_exports [of "metadata_import md" mr w "snd (rewriter_Import rt mid tok)" False]
    scan_failed(4) have "exports cs = []" by simp
  with scan_failed(5) show ?thesis by simp
next
  case (unmodified w cs il'')
  from scan_instrs_exports [of "metadata_import md" mr w "snd (rewriter_Import rt mid tok)" False]
    unmodified(4) have "exports cs = []" by simp
  with unmodified(5) show ?thesis by simp
next
  case (committed w cs il'')
  have "c' \<in> set cs \<Longrightarrow> \<not> read_failed (metadata_import md) c'" for c'
    using scan_instrs_reads [OF committed(4)] by auto
  with assms committed(5) show ?thesis by auto
qed simp_all

section \<open>The loops over the replacements and the callback\<close>

lemma replacements_loop_append:
  "replacements_loop rt md mid tok caller (xs @ ys) =
     (case replacements_loop rt md mid tok caller xs of
        (cs, Some hr) \<Rightarrow> (cs, Some hr)
      | (cs, None) \<Rightarrow>
          (case replacements_loop rt md mid tok caller ys of (cs', r) \<Rightarrow> (cs @ cs', r)))"
  by (induction xs) (auto split: prod.splits option.splits)

lemma integrations_loop_flat:
  "integrations_loop rt md mid tok caller is =
     replacements_loop rt md mid tok caller (concat (map method_replacements is))"
  by (induction "is") (auto simp: replacements_loop_append split: prod.splits option.splits)

lemma replacements_loop_Cons:
  "replacements_loop rt md mid tok caller (mr # mrs) =
     (if snd (replace_calls rt md mid tok caller mr) = None
      then (fst (replace_calls rt md mid tok caller mr)
              @ fst (replacements_loop rt md mid tok caller mrs),
            snd (replacements_loop rt md mid tok caller mrs))
      else replace_calls rt md mid tok caller mr)"
  by (auto split: prod.splits option.splits)

lemma replacements_loop_result:
  "snd (replacements_loop rt md mid tok caller mrs) = None \<or>
   snd (replacements_loop rt md mid tok caller mrs) = Some S_OK"
proof (induction mrs)
  case Nil
  show ?case by simp
next
  case (Cons mr mrs)
  from replace_calls_result [of rt md mid tok caller mr] Cons.IH show ?case
    unfolding replacements_loop_Cons by auto
qed

lemma replacements_loop_None:
  "replacements_loop rt md mid tok caller mrs = (cs, None) \<Longrightarrow>
     exports cs = [] \<and> (\<forall>c\<in>set cs. \<not> read_failed (metadata_import md) c)"
proof (induction mrs arbitrary: cs)
  case Nil
  then show ?case by simp
next
  case (Cons mr mrs)
  obtain c1 r1 where r: "replace_calls rt md mid tok caller mr = (c1, r1)"
    by (cases "replace_calls rt md mid tok caller mr")
  obtain c2 r2 where l: "replacements_loop rt md mid tok caller mrs = (c2, r2)"
    by (cases "replacements_loop rt md mid tok caller mrs")
  from Cons.prems r l have "r1 = None" "r2 = None" "cs = c1 @ c2"
    unfolding replacements_loop_Cons by (auto split: if_splits)
  with replace_calls_None [of rt md mid tok caller mr c1] r Cons.IH [of c2] l show ?case
    by (auto simp: exports_append)
qed

lemma replacements_loop_exports_length:
  "length (exports (fst (replacements_loop rt md mid tok caller mrs))) \<le> 1"
proof (induction mrs)
  case Nil
  show ?case by simp
next
  case (Cons mr mrs)
  show ?case
  proof (cases "snd (replace_calls rt md mid tok caller mr) = None")
    case True
    then have "replace_calls rt md mid tok caller mr =
        (fst (replace_calls rt md mid tok caller mr), None)"
      by (simp add: prod_eq_iff)
    from replace_calls_None(1) [OF this] True Cons.IH show ?thesis
      unfolding replacements_loop_Cons by (simp add: exports_append)
  next
    case False
    with replace_calls_exports_length [of rt md mid tok caller mr] show ?thesis
      unfolding replacements_loop_Cons by auto
  qed
qed

lemma replacements_loop_failed_read:
  "c \<in> set (fst (replacements_loop rt md mid tok caller mrs)) \<Longrightarrow>
   read_failed (metadata_import md) c \<Longrightarrow>
   exports (fst (replacements_loop rt md mid tok caller mrs)) = []"
proof (induction mrs)
  case Nil
  show ?case by simp
next
  case (Cons mr mrs)
  show ?case
  proof (cases "snd (replace_calls rt md mid tok caller mr) = None")
    case True
    then have eq: "replace_calls rt md mid tok caller mr =
        (fst (replace_calls rt md mid tok caller mr), None)"
      by (simp add: prod_eq_iff)
    from replace_calls_None [OF eq] Cons.prems True
    have "c \<in> set (fst (replacements_loop rt md mid tok caller mrs))"
      unfolding replacements_loop_Cons by auto
    from Cons.IH [OF this Cons.prems(2)] replace_calls_None(1) [OF eq] True show ?thesis
      unfolding replacements_loop_Cons by (simp add: exports_append)
  next
    case False
    with Cons.prems replace_calls_failed_read [of c rt md mid tok caller mr] show ?thesis
      unfolding replacements_loop_Cons by auto
  qed
qed

lemma replacements_loop_Export:
  "Call_Export il' \<in> set (fst (replacements_loop rt md mid tok caller mrs)) \<Longrightarrow>
   \<exists>mr\<in>set mrs. Call_Export il' \<in> set (fst (replace_calls rt md mid tok caller mr))"
proof (induction mrs)
  case Nil
  then show ?case by simp
next
  case (Cons mr mrs)
  then show ?case unfolding replacements_loop_Cons by (auto split: if_splits)
qed

text \<open>The callback, once the module is tracked and the caller is valid.\<close>

lemma JITCompilationStarted_tracked:
  assumes "info_GetFunctionInfo rt functionId = (hr, moduleId, functionToken)"
    and "\<not> FAILED hr"
    and "module_id_to_info_map this moduleId = Some md"
    and "isvalid (GetFunctionInfo rt (metadata_import md) functionToken)"
  shows "JITCompilationStarted rt this functionId =
     (fst (replacements_loop rt md moduleId functionToken
             (GetFunctionInfo rt (metadata_import md) functionToken) (enabled_replacements md)),
      S_OK)"
proof -
  let ?l = "replacements_loop rt md moduleId functionToken
             (GetFunctionInfo rt (metadata_import md) functionToken) (enabled_replacements md)"
  from replacements_loop_result [of rt md moduleId functionToken _ "enabled_replacements md"]
  have "snd ?l = None \<or> snd ?l = Some S_OK" .
  then show ?thesis
    using assms
    by (auto simp: JITCompilationStarted_def integrations_loop_flat enabled_replacements_def Let_def
        split: prod.splits option.splits)
qed

lemma JITCompilationStarted_untouched:
  assumes "info_GetFunctionInfo rt functionId = (hr, moduleId, functionToken)"
    and "FAILED hr \<or> module_id_to_info_map this moduleId = None \<or>
         (\<exists>md. module_id_to_info_map this moduleId = Some md \<and>
               \<not> isvalid (GetFunctionInfo rt (metadata_import md) functionToken))"
  shows "JITCompilationStarted rt this functionId = ([], S_OK)"
  using assms by (auto simp: JITCompilationStarted_def Let_def split: option.splits)

lemma JITCompilationStarted_Export:
  assumes "Call_Export il' \<in> set (fst (JITCompilationStarted rt this functionId))"
  obtains md mr where
    "module_id_to_info_map this (fst (snd (info_GetFunctionInfo rt functionId))) = Some md"
    "mr \<in> set (enabled_replacements md)"
    "Call_Export il' \<in> set (fst (replace_calls rt md
        (fst (snd (info_GetFunctionInfo rt functionId)))
        (snd (snd (info_GetFunctionInfo rt functionId)))
        (GetFunctionInfo rt (metadata_import md) (snd (snd (info_GetFunctionInfo rt functionId))))
        mr))"
proof -
  obtain hr moduleId functionToken where
    g: "info_GetFunctionInfo rt functionId = (hr, moduleId, functionToken)"
    by (cases "info_GetFunctionInfo rt functionId")
  show ?thesis
  proof (cases "FAILED hr \<or> module_id_to_info_map this moduleId = None \<or>
         (\<exists>md. module_id_to_info_map this moduleId = Some md \<and>
               \<not> isvalid (GetFunctionInfo rt (metadata_import md) functionToken))")
    case True
    from JITCompilationStarted_untouched [OF g True] assms show ?thesis by simp
  next
    case False
    then obtain md where md: "\<not> FAILED hr" "module_id_to_info_map this moduleId = Some md"
      "isvalid (GetFunctionInfo rt (metadata_import md) functionToken)"
      by auto
    from JITCompilationStarted_tracked [OF g md] assms
    have "Call_Export il' \<in> set (fst (replacements_loop rt md moduleId functionToken
             (GetFunctionInfo rt (metadata_import md) functionToken) (enabled_replacements md)))"
      by simp
    from replacements_loop_Export [OF this] obtain mr where
      "mr \<in> set (enabled_replacements md)"
      "Call_Export il' \<in> set (fst (replace_calls rt md moduleId functionToken
             (GetFunctionInfo rt (metadata_import md) functionToken) mr))"
      by blast
    with md(2) g that [of md mr] show ?thesis by simp
  qed
qed

section \<open>The module load\<close>

text \<open>
  Which integrations the filter keeps, what the emission leaves of the module record, and
  the two nested emission loops as one loop over the replacements in order.
\<close>

lemma set_push_enabled:
  "set (push_enabled a i mrs) =
     (if \<exists>mr\<in>set mrs. name (assembly (caller_method mr)) = [] \<or>
                       name (assembly (caller_method mr)) = a
      then {i} else {})"
  by (induction mrs) auto

lemma set_enabledIntegrations:
  "set (enabledIntegrations a is) =
     {i \<in> set is. \<exists>mr\<in>set (method_replacements i).
        name (assembly (caller_method mr)) = [] \<or> name (assembly (caller_method mr)) = a}"
  by (induction "is") (auto simp: set_push_enabled split: if_splits)

lemma StoreWrapperMethodRef_frame:
  "StoreWrapperMethodRef rt md mr = (hr, md') \<Longrightarrow>
     integrations md' = integrations md \<and> assemblyName md' = assemblyName md \<and>
     metadata_import md' = metadata_import md"
  by (auto simp: StoreWrapperMethodRef_def Let_def split: option.splits prod.splits if_splits)

lemma emit_replacements_frame:
  "emit_replacements rt md mrs = (cs, Some md') \<Longrightarrow>
     integrations md' = integrations md \<and> assemblyName md' = assemblyName md \<and>
     metadata_import md' = metadata_import md"
proof (induction mrs arbitrary: md cs)
  case Nil
  then show ?case by simp
next
  case (Cons mr mrs)
  obtain hr md1 where s: "StoreWrapperMethodRef rt md mr = (hr, md1)"
    by (cases "StoreWrapperMethodRef rt md mr")
  obtain cs1 r1 where e: "emit_replacements rt md1 mrs = (cs1, r1)"
    by (cases "emit_replacements rt md1 mrs")
  with s Cons.prems have "emit_replacements rt md1 mrs = (cs1, Some md')"
    by (simp split: if_splits)
  from Cons.IH [OF this] StoreWrapperMethodRef_frame [OF s] show ?case by simp
qed

lemma emit_replacements_append:
  "emit_replacements rt md (xs @ ys) =
     (case emit_replacements rt md xs of
        (cs, None) \<Rightarrow> (cs, None)
      | (cs, Some md') \<Rightarrow>
          (case emit_replacements rt md' ys of (cs', r) \<Rightarrow> (cs @ cs', r)))"
  by (induction xs arbitrary: md) (auto split: prod.splits option.splits)

lemma emit_integrations_flat:
  "emit_integrations rt md is = emit_replacements rt md (concat (map method_replacements is))"
  by (induction "is" arbitrary: md)
    (auto simp: emit_replacements_append split: prod.splits option.splits)

lemma ModuleLoadFinished_Some:
  assumes "module_id_to_info_map this moduleId = None"
    and "module_id_to_info_map (snd (ModuleLoadFinished rt this moduleId)) moduleId = Some md"
  shows "snd (emit_integrations rt
           \<lparr>metadata_import = snd (GetModuleMetaData rt moduleId),
            assemblyName = GetAssemblyName rt (fst (snd (GetModuleInfo2 rt moduleId))),
            integrations = enabledIntegrations
              (GetAssemblyName rt (fst (snd (GetModuleInfo2 rt moduleId)))) (prof_integrations this),
            wrapper_refs = Map.empty\<rparr>
           (enabledIntegrations
              (GetAssemblyName rt (fst (snd (GetModuleInfo2 rt moduleId)))) (prof_integrations this)))
         = Some md"
  using assms
  by (auto simp: ModuleLoadFinished_def Let_def split: prod.splits if_splits option.splits)

section \<open>The sample module, evaluated\<close>

lemmas sample_defs = sample_import_def sample_wrapper_def sample_replacement_def
  sample_integration_def instr_def sample_body_def sample_runtime_def sample_profiler_def
  sample_module_def sample_loaded_profiler_def sample_caller_def
  sample_module_without_Add_def sample_runtime_failing_Add_def
  S_OK_def E_FAIL_def FAILED_def TypeFromToken_def mdtTypeRef_def mdtTypeDef_def
  mdtMethodDef_def mdtMemberRef_def CEE_CALL_def CEE_CALLVIRT_def get_method_cache_key_def
  COR_PRF_MODULE_WINDOWS_RUNTIME_def

lemmas callback_defs = JITCompilationStarted_def replace_calls_def visit_instr_def
  use_method_def_def use_type_def_def compare_type_and_method_names_def caller_matches_def
  TryGetWrapperMemberRef_def ModuleLoadFinished_def StoreWrapperMethodRef_def Let_def

lemma sample_compile_7:
  "JITCompilationStarted sample_runtime sample_loaded_profiler 7 =
     ([Call_TryGetWrapperMemberRef ''[Wrap]Wrapper.Math.Mul'', Call_Import,
       Call_GetMemberRefProps 0x0A000001, Call_GetMemberRefProps 0x0A000002,
       Call_TryGetWrapperMemberRef ''[Wrap]Wrapper.Math.Add'', Call_Import,
       Call_GetMemberRefProps 0x0A000001, Call_GetTypeRefProps 0x01000001,
       Call_GetMemberRefProps 0x0A000002,
       Call_Export [instr 0x02 0, instr 0x28 0x0A000011, instr 0x28 0x0A000002, instr 0x2A 0]],
      0)"
  by (simp add: callback_defs sample_defs)

lemma sample_compile_9:
  "JITCompilationStarted sample_runtime sample_loaded_profiler 9 =
     ([Call_TryGetWrapperMemberRef ''[Wrap]Wrapper.Math.Mul'', Call_Import,
       Call_GetMemberRefProps 0x0A000006, Call_GetTypeRefProps 0x01000001,
       Call_GetMemberRefProps 0x0A000003],
      0)"
  by (simp add: callback_defs sample_defs)

lemma sample_pass_Add_8:
  "replace_calls sample_runtime sample_module 1 0x06000011 sample_caller
     (sample_replacement ''A'' ''Add'') =
     ([Call_TryGetWrapperMemberRef ''[Wrap]Wrapper.Math.Add'', Call_Import,
       Call_GetMemberRefProps 0x0A000001, Call_GetTypeRefProps 0x01000001,
       Call_GetMethodProps 0x06000001, Call_GetTypeDefProps 0x02000001,
       Call_GetMemberRefProps 0x0A000004, Call_GetTypeDefProps 0x02000001,
       Call_GetMemberRefProps 0x0A000005, Call_GetTypeRefProps 0x01000002,
       Call_Export [instr 0x28 0x0A000011, instr 0x28 0x0A000011, instr 0x28 0x0A000011,
                    instr 0x28 0x0A000005]],
      Some 0)"
  by (simp add: callback_defs sample_defs)

lemma sample_load:
  "snd (ModuleLoadFinished sample_runtime sample_profiler 1) = sample_loaded_profiler"
  by (simp add: callback_defs sample_defs)

lemma sample_load_failing_Add:
  "ModuleLoadFinished sample_runtime_failing_Add sample_profiler 1 =
     (([Call_EmitAssemblyRef \<lparr>name = ''Wrap''\<rparr>,
        Call_StoreWrapperMethodRef (sample_replacement ''B'' ''Mul''),
        Call_EmitAssemblyRef \<lparr>name = ''Wrap''\<rparr>,
        Call_StoreWrapperMethodRef (sample_replacement ''A'' ''Add'')], S_OK),
      sample_profiler)"
  by (simp add: callback_defs sample_defs)

lemma sample_compile_7_without_Add:
  "JITCompilationStarted sample_runtime
     (sample_profiler\<lparr>module_id_to_info_map := [1 \<mapsto> sample_module_without_Add]\<rparr>) 7 =
     ([Call_TryGetWrapperMemberRef ''[Wrap]Wrapper.Math.Mul'', Call_Import,
       Call_GetMemberRefProps 0x0A000001, Call_GetMemberRefProps 0x0A000002,
       Call_TryGetWrapperMemberRef ''[Wrap]Wrapper.Math.Add''],
      0)"
  by (simp add: callback_defs sample_defs)

lemma sample_pass_Sub_7_without_Add:
  "replace_calls sample_runtime sample_module_without_Add 1 0x06000010 sample_caller
     (sample_replacement [] ''Sub'') =
     ([Call_TryGetWrapperMemberRef ''[Wrap]Wrapper.Math.Sub'', Call_Import,
       Call_GetMemberRefProps 0x0A000001, Call_GetMemberRefProps 0x0A000002,
       Call_GetTypeRefProps 0x01000001,
       Call_Export [instr 0x02 0, instr 0x6F 0x0A000001, instr 0x28 0x0A000012, instr 0x2A 0]],
      Some 0)"
  by (simp add: callback_defs sample_defs)

lemma sample_compile_10:
  "JITCompilationStarted sample_runtime sample_loaded_profiler 10 =
     ([Call_TryGetWrapperMemberRef ''[Wrap]Wrapper.Math.Mul'', Call_Import,
       Call_GetMemberRefProps 0x0A000006, Call_GetTypeRefProps 0x01000001,
       Call_Export [instr 0x28 0x0A000010]],
      0)"
  by (simp add: callback_defs sample_defs)

section \<open>The properties of the specification\<close>



text \<open>
  C2, as the code has it: when the load of an untracked module stores a record, the record
  carries the assembly name of the module, and the replacements it holds are, as a set,
  the replacements of those integrations of the catalog that have at least one replacement
  whose caller assembly name is empty or is the assembly name of the module. The filter
  keeps or drops an integration as a whole.
\<close>

theorem enabled_replacements_after_load:
  assumes "module_id_to_info_map this moduleId = None"
    and "module_id_to_info_map (snd (ModuleLoadFinished rt this moduleId)) moduleId = Some md"
  shows "assemblyName md = GetAssemblyName rt (fst (snd (GetModuleInfo2 rt moduleId))) \<and>
         set (enabled_replacements md) =
           {mr. \<exists>i\<in>set (prof_integrations this). mr \<in> set (method_replacements i) \<and>
                  (\<exists>mr'\<in>set (method_replacements i).
                     name (assembly (caller_method mr')) = [] \<or>
                     name (assembly (caller_method mr')) = assemblyName md)}"
proof -
  from ModuleLoadFinished_Some [OF assms] have
    "snd (emit_replacements rt
           \<lparr>metadata_import = snd (GetModuleMetaData rt moduleId),
            assemblyName = GetAssemblyName rt (fst (snd (GetModuleInfo2 rt moduleId))),
            integrations = enabledIntegrations
              (GetAssemblyName rt (fst (snd (GetModuleInfo2 rt moduleId)))) (prof_integrations this),
            wrapper_refs = Map.empty\<rparr>
           (concat (map method_replacements (enabledIntegrations
              (GetAssemblyName rt (fst (snd (GetModuleInfo2 rt moduleId))))
              (prof_integrations this)))))
         = Some md"
    by (simp add: emit_integrations_flat)
  then obtain cs where
    "emit_replacements rt
           \<lparr>metadata_import = snd (GetModuleMetaData rt moduleId),
            assemblyName = GetAssemblyName rt (fst (snd (GetModuleInfo2 rt moduleId))),
            integrations = enabledIntegrations
              (GetAssemblyName rt (fst (snd (GetModuleInfo2 rt moduleId)))) (prof_integrations this),
            wrapper_refs = Map.empty\<rparr>
           (concat (map method_replacements (enabledIntegrations
              (GetAssemblyName rt (fst (snd (GetModuleInfo2 rt moduleId))))
              (prof_integrations this))))
         = (cs, Some md)"
    by (metis prod.collapse)
  from emit_replacements_frame [OF this] have
    a: "assemblyName md = GetAssemblyName rt (fst (snd (GetModuleInfo2 rt moduleId)))" and
    i: "integrations md = enabledIntegrations
              (GetAssemblyName rt (fst (snd (GetModuleInfo2 rt moduleId)))) (prof_integrations this)"
    by simp_all
  have "set (enabled_replacements md) =
           {mr. \<exists>i\<in>set (prof_integrations this). mr \<in> set (method_replacements i) \<and>
                  (\<exists>mr'\<in>set (method_replacements i).
                     name (assembly (caller_method mr')) = [] \<or>
                     name (assembly (caller_method mr')) = assemblyName md)}"
    unfolding enabled_replacements_def i a [symmetric]
    by (auto simp: set_enabledIntegrations)
  with a show ?thesis by simp
qed

text \<open>The load of the sample module.\<close>

theorem enabled_replacements_after_load_sample:
  "module_id_to_info_map sample_profiler 1 = None \<and>
   module_id_to_info_map (snd (ModuleLoadFinished sample_runtime sample_profiler 1)) 1 =
     Some sample_module \<and>
   set (enabled_replacements sample_module) =
     {mr. \<exists>i\<in>set (prof_integrations sample_profiler). mr \<in> set (method_replacements i) \<and>
            (\<exists>mr'\<in>set (method_replacements i).
               name (assembly (caller_method mr')) = [] \<or>
               name (assembly (caller_method mr')) = assemblyName sample_module)}"
proof -
  have h1: "module_id_to_info_map sample_profiler 1 = None"
    by (simp add: sample_profiler_def)
  have h2: "module_id_to_info_map (snd (ModuleLoadFinished sample_runtime sample_profiler 1)) 1 =
     Some sample_module"
    by (simp add: sample_load sample_loaded_profiler_def)
  from enabled_replacements_after_load [OF h1 h2] h1 h2 show ?thesis by simp
qed

text \<open>
  C2 as stated does not hold: the record of the sample module, of assembly \<open>A\<close>, holds the
  replacement of \<open>Mul\<close>, whose caller assembly is \<open>B\<close>, and holds every replacement twice.
\<close>

theorem enabled_set_holds_other_assembly_and_duplicates:
  "module_id_to_info_map (snd (ModuleLoadFinished sample_runtime sample_profiler 1)) 1 =
     Some sample_module \<and>
   assemblyName sample_module = ''A'' \<and>
   name (assembly (caller_method (sample_replacement ''B'' ''Mul''))) = ''B'' \<and>
   sample_replacement ''B'' ''Mul'' \<in> set (enabled_replacements sample_module) \<and>
   \<not> distinct (enabled_replacements sample_module)"
  by (simp add: sample_load sample_loaded_profiler_def enabled_replacements_def
      sample_module_def sample_integration_def sample_replacement_def)

text \<open>
  C3, as the code has it: the first emission that fails during the module load, of an
  assembly reference or of a wrapper member reference, ends the callback. It returns
  \<open>S_OK\<close>; its calls to the builder are those for the replacements before the failing one
  followed by the failing call, so that nothing is emitted for the replacements after it;
  and the profiler is as it was before the load, with no record stored for the module, so
  that the compilation of any function of a module that was not tracked before does nothing.
\<close>

theorem failed_emission_leaves_module_untracked:
  assumes info: "GetModuleInfo2 rt moduleId = (hr, assembly_id, dwModuleFlags)"
    and nf: "\<not> FAILED hr"
    and flags: "dwModuleFlags AND COR_PRF_MODULE_WINDOWS_RUNTIME = 0"
    and enabled: "enabled = enabledIntegrations (GetAssemblyName rt assembly_id) (prof_integrations this)"
    and meta: "GetModuleMetaData rt moduleId = (hr', metadataImport)"
    and nf': "\<not> FAILED hr'"
    and scope: "GetModuleFromScope metadataImport = (hr'', module)"
    and nf'': "\<not> FAILED hr''"
    and order: "concat (map method_replacements enabled) = earlier @ mr # later"
    and earlier: "emit_replacements rt
        \<lparr>metadata_import = metadataImport, assemblyName = GetAssemblyName rt assembly_id,
         integrations = enabled, wrapper_refs = Map.empty\<rparr> earlier = (cs0, Some md)"
    and failure: "FAILED (EmitAssemblyRef rt (assembly (wrapper_method mr))) \<or>
                  FAILED (fst (StoreWrapperMethodRef rt md mr))"
  shows "ModuleLoadFinished rt this moduleId =
           ((cs0 @ Call_EmitAssemblyRef (assembly (wrapper_method mr)) #
               (if FAILED (EmitAssemblyRef rt (assembly (wrapper_method mr))) then []
                else [Call_StoreWrapperMethodRef mr]),
             S_OK), this) \<and>
         (\<forall>functionId. module_id_to_info_map this moduleId = None \<and>
              fst (snd (info_GetFunctionInfo rt functionId)) = moduleId \<longrightarrow>
              JITCompilationStarted rt (snd (ModuleLoadFinished rt this moduleId)) functionId =
                ([], S_OK))"
proof -
  let ?cs = "Call_EmitAssemblyRef (assembly (wrapper_method mr)) #
               (if FAILED (EmitAssemblyRef rt (assembly (wrapper_method mr))) then []
                else [Call_StoreWrapperMethodRef mr])"
  from failure have "emit_replacements rt md (mr # later) = (?cs, None)"
    by (auto simp: case_prod_beta)
  with earlier have "emit_integrations rt
        \<lparr>metadata_import = metadataImport, assemblyName = GetAssemblyName rt assembly_id,
         integrations = enabled, wrapper_refs = Map.empty\<rparr> enabled = (cs0 @ ?cs, None)"
    by (simp add: emit_integrations_flat order emit_replacements_append)
  moreover from order have "enabled \<noteq> []" by auto
  ultimately have load: "ModuleLoadFinished rt this moduleId = ((cs0 @ ?cs, S_OK), this)"
    using info nf flags enabled meta nf' scope nf''
    by (simp add: ModuleLoadFinished_def Let_def)
  have "JITCompilationStarted rt (snd (ModuleLoadFinished rt this moduleId)) functionId =
      ([], S_OK)"
    if "module_id_to_info_map this moduleId = None \<and>
        fst (snd (info_GetFunctionInfo rt functionId)) = moduleId" for functionId
  proof -
    obtain hr0 mid functionToken where
      g0: "info_GetFunctionInfo rt functionId = (hr0, mid, functionToken)"
      by (cases "info_GetFunctionInfo rt functionId")
    with that have "mid = moduleId" by simp
    with g0 have g: "info_GetFunctionInfo rt functionId = (hr0, moduleId, functionToken)"
      by simp
    from that have "FAILED hr0 \<or> module_id_to_info_map this moduleId = None \<or>
         (\<exists>md. module_id_to_info_map this moduleId = Some md \<and>
               \<not> isvalid (GetFunctionInfo rt (metadata_import md) functionToken))"
      by simp
    from JITCompilationStarted_untouched [OF g this] load show ?thesis by simp
  qed
  with load show ?thesis by simp
qed

text \<open>The load of the sample module when the reference of the \<open>Add\<close> wrapper cannot be emitted.\<close>

theorem failed_emission_leaves_module_untracked_sample:
  "FAILED (fst (StoreWrapperMethodRef sample_runtime_failing_Add
      \<lparr>metadata_import = sample_import, assemblyName = ''A'',
       integrations = [sample_integration, sample_integration],
       wrapper_refs = [get_method_cache_key (sample_wrapper ''Mul'') \<mapsto> 0x0A000010]\<rparr>
      (sample_replacement ''A'' ''Add''))) \<and>
   module_id_to_info_map sample_profiler 1 = None \<and>
   ModuleLoadFinished sample_runtime_failing_Add sample_profiler 1 =
     (([Call_EmitAssemblyRef \<lparr>name = ''Wrap''\<rparr>,
        Call_StoreWrapperMethodRef (sample_replacement ''B'' ''Mul''),
        Call_EmitAssemblyRef \<lparr>name = ''Wrap''\<rparr>,
        Call_StoreWrapperMethodRef (sample_replacement ''A'' ''Add'')], S_OK),
      sample_profiler) \<and>
   JITCompilationStarted sample_runtime_failing_Add
     (snd (ModuleLoadFinished sample_runtime_failing_Add sample_profiler 1)) 7 = ([], S_OK)"
proof -
  let ?md = "\<lparr>metadata_import = sample_import, assemblyName = ''A'',
       integrations = [sample_integration, sample_integration],
       wrapper_refs = [get_method_cache_key (sample_wrapper ''Mul'') \<mapsto> 0x0A000010]\<rparr>"
  have info: "GetModuleInfo2 sample_runtime_failing_Add 1 = (0, 5, 0x01)"
    by (simp add: sample_defs)
  have nf: "\<not> FAILED 0" by (simp add: FAILED_def)
  have flags: "(0x01 :: DWORD) AND COR_PRF_MODULE_WINDOWS_RUNTIME = 0"
    by (simp add: COR_PRF_MODULE_WINDOWS_RUNTIME_def)
  have enabled: "[sample_integration, sample_integration] =
      enabledIntegrations (GetAssemblyName sample_runtime_failing_Add 5)
        (prof_integrations sample_profiler)"
    by (simp add: sample_defs)
  have meta: "GetModuleMetaData sample_runtime_failing_Add 1 = (0, sample_import)"
    by (simp add: sample_runtime_failing_Add_def sample_runtime_def S_OK_def)
  have scope: "GetModuleFromScope sample_import = (0, 1)"
    by (simp add: sample_import_def S_OK_def)
  have order: "concat (map method_replacements [sample_integration, sample_integration]) =
      [sample_replacement ''B'' ''Mul''] @ sample_replacement ''A'' ''Add'' #
      [sample_replacement [] ''Sub'', sample_replacement ''B'' ''Mul'',
       sample_replacement ''A'' ''Add'', sample_replacement [] ''Sub'']"
    by (simp add: sample_integration_def)
  have earlier: "emit_replacements sample_runtime_failing_Add
      \<lparr>metadata_import = sample_import,
       assemblyName = GetAssemblyName sample_runtime_failing_Add 5,
       integrations = [sample_integration, sample_integration], wrapper_refs = Map.empty\<rparr>
      [sample_replacement ''B'' ''Mul''] =
      ([Call_EmitAssemblyRef (assembly (wrapper_method (sample_replacement ''B'' ''Mul''))),
        Call_StoreWrapperMethodRef (sample_replacement ''B'' ''Mul'')], Some ?md)"
    by (simp add: callback_defs sample_runtime_failing_Add_def sample_runtime_def
        sample_replacement_def sample_wrapper_def get_method_cache_key_def FAILED_def S_OK_def
        E_FAIL_def)
  have failed: "FAILED (fst (StoreWrapperMethodRef sample_runtime_failing_Add ?md
      (sample_replacement ''A'' ''Add'')))"
    by (simp add: callback_defs sample_runtime_failing_Add_def sample_runtime_def
        sample_replacement_def sample_wrapper_def get_method_cache_key_def FAILED_def S_OK_def
        E_FAIL_def)
  then have failure:
    "FAILED (EmitAssemblyRef sample_runtime_failing_Add
               (assembly (wrapper_method (sample_replacement ''A'' ''Add'')))) \<or>
     FAILED (fst (StoreWrapperMethodRef sample_runtime_failing_Add ?md
               (sample_replacement ''A'' ''Add'')))"
    by (rule disjI2)
  have untracked: "module_id_to_info_map sample_profiler 1 = None"
    by (simp add: sample_profiler_def)
  have fn: "fst (snd (info_GetFunctionInfo sample_runtime_failing_Add 7)) = 1"
    by (simp add: sample_defs)
  have emitted: "\<not> FAILED (EmitAssemblyRef sample_runtime_failing_Add
      (assembly (wrapper_method (sample_replacement ''A'' ''Add''))))"
    "assembly (wrapper_method (sample_replacement ''A'' ''Add'')) = \<lparr>name = ''Wrap''\<rparr>"
    "assembly (wrapper_method (sample_replacement ''B'' ''Mul'')) = \<lparr>name = ''Wrap''\<rparr>"
    by (simp_all add: sample_defs)
  note t = failed_emission_leaves_module_untracked
    [OF info nf flags enabled meta nf scope nf order earlier failure]
  from t have "ModuleLoadFinished sample_runtime_failing_Add sample_profiler 1 =
     (([Call_EmitAssemblyRef \<lparr>name = ''Wrap''\<rparr>,
        Call_StoreWrapperMethodRef (sample_replacement ''B'' ''Mul''),
        Call_EmitAssemblyRef \<lparr>name = ''Wrap''\<rparr>,
        Call_StoreWrapperMethodRef (sample_replacement ''A'' ''Add'')], S_OK),
      sample_profiler)"
    using emitted by simp
  moreover from t untracked fn have "JITCompilationStarted sample_runtime_failing_Add
     (snd (ModuleLoadFinished sample_runtime_failing_Add sample_profiler 1)) 7 = ([], S_OK)"
    by blast
  ultimately show ?thesis using failed untracked by simp
qed

text \<open>
  C3 as stated does not hold: only the emission for \<open>Add\<close> fails, those for \<open>Mul\<close> and
  \<open>Sub\<close> would succeed, yet the load never calls the builder for \<open>Sub\<close>, no record is
  stored for the module and a later compilation of function 7 does nothing.
\<close>

theorem failed_emission_drops_whole_module:
  "module_id_to_info_map (snd (ModuleLoadFinished sample_runtime_failing_Add sample_profiler 1)) 1
     = None \<and>
   FAILED (fst (DefineMemberRef sample_runtime_failing_Add (sample_wrapper ''Add''))) \<and>
   \<not> FAILED (fst (DefineMemberRef sample_runtime_failing_Add (sample_wrapper ''Sub''))) \<and>
   \<not> FAILED (fst (DefineMemberRef sample_runtime_failing_Add (sample_wrapper ''Mul''))) \<and>
   Call_StoreWrapperMethodRef (sample_replacement [] ''Sub'')
     \<notin> set (fst (fst (ModuleLoadFinished sample_runtime_failing_Add sample_profiler 1))) \<and>
   JITCompilationStarted sample_runtime_failing_Add
     (snd (ModuleLoadFinished sample_runtime_failing_Add sample_profiler 1)) 7 = ([], S_OK)"
  by (simp add: sample_load_failing_Add)
     (simp add: JITCompilationStarted_def sample_defs)

text \<open>
  C4, as the code has it: when the loop reaches a replacement that matches the caller and
  whose wrapper reference is not in the cache of the module, the callback returns \<open>S_OK\<close>
  at that point: the trace ends with the failed lookup, no later replacement is evaluated
  and nothing is committed.
\<close>

theorem missing_wrapper_reference_ends_event:
  assumes g: "info_GetFunctionInfo rt functionId = (hr, moduleId, functionToken)"
    and nf: "\<not> FAILED hr"
    and md: "module_id_to_info_map this moduleId = Some md"
    and caller: "caller = GetFunctionInfo rt (metadata_import md) functionToken"
    and valid: "isvalid caller"
    and order: "enabled_replacements md = earlier @ mr # later"
    and earlier: "replacements_loop rt md moduleId functionToken caller earlier = (cs0, None)"
    and matches: "caller_matches mr caller"
    and missing: "TryGetWrapperMemberRef md (get_method_cache_key (wrapper_method mr)) = None"
  shows "JITCompilationStarted rt this functionId =
           (cs0 @ [Call_TryGetWrapperMemberRef (get_method_cache_key (wrapper_method mr))], S_OK) \<and>
         exports (fst (JITCompilationStarted rt this functionId)) = []"
proof -
  have r: "replace_calls rt md moduleId functionToken caller mr =
      ([Call_TryGetWrapperMemberRef (get_method_cache_key (wrapper_method mr))], Some S_OK)"
    using matches missing by (simp add: replace_calls_def)
  have loop: "replacements_loop rt md moduleId functionToken caller (earlier @ mr # later) =
      (cs0 @ [Call_TryGetWrapperMemberRef (get_method_cache_key (wrapper_method mr))], Some S_OK)"
    unfolding replacements_loop_append earlier using r by simp
  from valid caller have "isvalid (GetFunctionInfo rt (metadata_import md) functionToken)"
    by simp
  from JITCompilationStarted_tracked [OF g nf md this] loop order caller
  have jit: "JITCompilationStarted rt this functionId =
           (cs0 @ [Call_TryGetWrapperMemberRef (get_method_cache_key (wrapper_method mr))], S_OK)"
    by simp
  from replacements_loop_None [OF earlier] have "exports cs0 = []" by simp
  with jit show ?thesis by (simp add: exports_append)
qed

text \<open>Function 7 of the sample module, compiled with the record that lacks the \<open>Add\<close> reference.\<close>

theorem missing_wrapper_reference_ends_event_sample:
  "TryGetWrapperMemberRef sample_module_without_Add
     (get_method_cache_key (wrapper_method (sample_replacement ''A'' ''Add''))) = None \<and>
   JITCompilationStarted sample_runtime
     (sample_profiler\<lparr>module_id_to_info_map := [1 \<mapsto> sample_module_without_Add]\<rparr>) 7 =
     ([Call_TryGetWrapperMemberRef ''[Wrap]Wrapper.Math.Mul'', Call_Import,
       Call_GetMemberRefProps 0x0A000001, Call_GetMemberRefProps 0x0A000002,
       Call_TryGetWrapperMemberRef ''[Wrap]Wrapper.Math.Add''],
      S_OK)"
proof -
  have g: "info_GetFunctionInfo sample_runtime 7 = (0, 1, 0x06000010)"
    by (simp add: sample_defs)
  have nf: "\<not> FAILED 0" by (simp add: FAILED_def)
  have md: "module_id_to_info_map
      (sample_profiler\<lparr>module_id_to_info_map := [1 \<mapsto> sample_module_without_Add]\<rparr>) 1 =
      Some sample_module_without_Add"
    by simp
  have caller: "sample_caller = GetFunctionInfo sample_runtime
      (metadata_import sample_module_without_Add) 0x06000010"
    by (simp add: sample_defs)
  have valid: "isvalid sample_caller" by (simp add: sample_caller_def)
  have order: "enabled_replacements sample_module_without_Add =
      [sample_replacement ''B'' ''Mul''] @ sample_replacement ''A'' ''Add'' #
      [sample_replacement [] ''Sub'', sample_replacement ''B'' ''Mul'',
       sample_replacement ''A'' ''Add'', sample_replacement [] ''Sub'']"
    by (simp add: enabled_replacements_def sample_module_without_Add_def sample_module_def
        sample_integration_def)
  have earlier: "replacements_loop sample_runtime sample_module_without_Add 1 0x06000010
      sample_caller [sample_replacement ''B'' ''Mul''] =
      ([Call_TryGetWrapperMemberRef ''[Wrap]Wrapper.Math.Mul'', Call_Import,
        Call_GetMemberRefProps 0x0A000001, Call_GetMemberRefProps 0x0A000002], None)"
    by (simp add: callback_defs sample_defs)
  have matches: "caller_matches (sample_replacement ''A'' ''Add'') sample_caller"
    by (simp add: caller_matches_def sample_defs)
  have missing: "TryGetWrapperMemberRef sample_module_without_Add
      (get_method_cache_key (wrapper_method (sample_replacement ''A'' ''Add''))) = None"
    by (simp add: callback_defs sample_defs)
  have key: "get_method_cache_key (wrapper_method (sample_replacement ''A'' ''Add'')) =
      ''[Wrap]Wrapper.Math.Add''"
    by (simp add: sample_defs)
  from missing_wrapper_reference_ends_event
    [OF g nf md caller valid order earlier matches missing] missing
  show ?thesis unfolding key by simp
qed

text \<open>
  C4 as stated does not hold: the replacement of \<open>Sub\<close> comes after the one of \<open>Add\<close>,
  its wrapper reference is cached and its pass alone would commit a rewrite of function 7,
  but the event ends at the missing reference of \<open>Add\<close> and never looks \<open>Sub\<close> up.
\<close>

theorem missing_wrapper_reference_skips_later_replacements:
  "caller_matches (sample_replacement ''A'' ''Add'') sample_caller \<and>
   TryGetWrapperMemberRef sample_module_without_Add
     (get_method_cache_key (wrapper_method (sample_replacement ''A'' ''Add''))) = None \<and>
   sample_replacement [] ''Sub'' \<in> set (enabled_replacements sample_module_without_Add) \<and>
   Call_Export [instr 0x02 0, instr 0x6F 0x0A000001, instr 0x28 0x0A000012, instr 0x2A 0]
     \<in> set (fst (replace_calls sample_runtime sample_module_without_Add 1 0x06000010 sample_caller
                    (sample_replacement [] ''Sub''))) \<and>
   Call_TryGetWrapperMemberRef ''[Wrap]Wrapper.Math.Sub''
     \<notin> set (fst (JITCompilationStarted sample_runtime
          (sample_profiler\<lparr>module_id_to_info_map := [1 \<mapsto> sample_module_without_Add]\<rparr>) 7)) \<and>
   exports (fst (JITCompilationStarted sample_runtime
          (sample_profiler\<lparr>module_id_to_info_map := [1 \<mapsto> sample_module_without_Add]\<rparr>) 7)) = []"
  by (simp add: sample_compile_7_without_Add sample_pass_Sub_7_without_Add)
     (simp add: callback_defs enabled_replacements_def sample_defs)

text \<open>
  C5: the stream of a committed rewrite is the imported method body in which exactly the
  call sites of the replacement (the direct and virtual calls whose resolved target has the
  target type name and method name) are changed, each in its opcode, which becomes
  \<open>CEE_CALL\<close>, and in its operand, which becomes the cached wrapper reference; every other
  instruction, and every other field of a changed one, is as it was.
\<close>

theorem committed_rewrite_changes_only_call_sites:
  assumes "Call_Export il' \<in> set (fst (JITCompilationStarted rt this functionId))"
  shows "\<exists>md mr w.
           module_id_to_info_map this (fst (snd (info_GetFunctionInfo rt functionId))) = Some md \<and>
           mr \<in> set (enabled_replacements md) \<and>
           TryGetWrapperMemberRef md (get_method_cache_key (wrapper_method mr)) = Some w \<and>
           il' = map (\<lambda>pInstr. if is_call_site (metadata_import md) mr pInstr
                               then pInstr\<lparr>m_opcode := CEE_CALL, m_Arg32 := w\<rparr>
                               else pInstr)
                     (snd (rewriter_Import rt (fst (snd (info_GetFunctionInfo rt functionId)))
                             (snd (snd (info_GetFunctionInfo rt functionId)))))"
proof -
  from assms obtain md mr where
    md: "module_id_to_info_map this (fst (snd (info_GetFunctionInfo rt functionId))) = Some md"
    and mr: "mr \<in> set (enabled_replacements md)"
    and e: "Call_Export il' \<in> set (fst (replace_calls rt md
        (fst (snd (info_GetFunctionInfo rt functionId)))
        (snd (snd (info_GetFunctionInfo rt functionId)))
        (GetFunctionInfo rt (metadata_import md) (snd (snd (info_GetFunctionInfo rt functionId))))
        mr))"
    by (rule JITCompilationStarted_Export)
  from replace_calls_Export [OF e] obtain w cs where
    w: "TryGetWrapperMemberRef md (get_method_cache_key (wrapper_method mr)) = Some w" and
    s: "scan_instrs (metadata_import md) mr w
          (snd (rewriter_Import rt (fst (snd (info_GetFunctionInfo rt functionId)))
                  (snd (snd (info_GetFunctionInfo rt functionId))))) False =
        (cs, Some (il', True))"
    by blast
  from scan_instrs_Some [OF s] have
    "il' = map (\<lambda>pInstr. if is_call_site (metadata_import md) mr pInstr
                               then pInstr\<lparr>m_opcode := CEE_CALL, m_Arg32 := w\<rparr>
                               else pInstr)
                     (snd (rewriter_Import rt (fst (snd (info_GetFunctionInfo rt functionId)))
                             (snd (snd (info_GetFunctionInfo rt functionId)))))"
    by (simp add: redirect_def)
  with md mr w show ?thesis by blast
qed

text \<open>The stream committed for function 7 of the sample module.\<close>

theorem committed_rewrite_changes_only_call_sites_sample:
  "Call_Export [instr 0x02 0, instr 0x28 0x0A000011, instr 0x28 0x0A000002, instr 0x2A 0]
     \<in> set (fst (JITCompilationStarted sample_runtime sample_loaded_profiler 7)) \<and>
   (\<exists>md mr w.
      module_id_to_info_map sample_loaded_profiler
        (fst (snd (info_GetFunctionInfo sample_runtime 7))) = Some md \<and>
      mr \<in> set (enabled_replacements md) \<and>
      TryGetWrapperMemberRef md (get_method_cache_key (wrapper_method mr)) = Some w \<and>
      [instr 0x02 0, instr 0x28 0x0A000011, instr 0x28 0x0A000002, instr 0x2A 0] =
        map (\<lambda>pInstr. if is_call_site (metadata_import md) mr pInstr
                       then pInstr\<lparr>m_opcode := CEE_CALL, m_Arg32 := w\<rparr>
                       else pInstr)
            (snd (rewriter_Import sample_runtime
                    (fst (snd (info_GetFunctionInfo sample_runtime 7)))
                    (snd (snd (info_GetFunctionInfo sample_runtime 7))))))"
proof -
  have h: "Call_Export [instr 0x02 0, instr 0x28 0x0A000011, instr 0x28 0x0A000002, instr 0x2A 0]
     \<in> set (fst (JITCompilationStarted sample_runtime sample_loaded_profiler 7))"
    by (simp add: sample_compile_7)
  from h committed_rewrite_changes_only_call_sites [OF h] show ?thesis by (rule conjI)
qed

text \<open>
  C6: for a call instruction whose operand is a member reference, when the name of the
  member is not the target method name of the replacement, the body of the loop ends after
  the one read of the member reference: no type reference, type definition or method
  definition is looked up, the instruction is left as it is and the resolver has no result.
\<close>

theorem member_name_mismatch_skips_type_lookup:
  assumes "m_opcode pInstr = CEE_CALL \<or> m_opcode pInstr = CEE_CALLVIRT"
    and "TypeFromToken (m_Arg32 pInstr) = mdtMemberRef"
    and "GetMemberRefProps imp (m_Arg32 pInstr) = (hr, token, target_method_name)"
    and "\<not> FAILED hr"
    and "target_method_name \<noteq> method_name (target_method mr)"
  shows "visit_instr imp mr wrapper_method_ref pInstr =
           ([Call_GetMemberRefProps (m_Arg32 pInstr)], Some (pInstr, False)) \<and>
         spec_resolve imp (m_Arg32 pInstr) (method_name (target_method mr)) = None"
proof -
  from assms(3-5) have "visit_instr imp mr wrapper_method_ref pInstr =
      ([Call_GetMemberRefProps (m_Arg32 pInstr)], Some (pInstr, False))"
    unfolding visit_instr_MemberRef [OF assms(1,2)] Let_def by auto
  moreover from assms(3-5) have
    "spec_resolve imp (m_Arg32 pInstr) (method_name (target_method mr)) = None"
    unfolding spec_resolve_MemberRef [OF assms(2)] Let_def by simp
  ultimately show ?thesis by simp
qed

text \<open>A virtual call of \<open>Sample.Math::Add\<close>, scanned for the replacement of \<open>Mul\<close>.\<close>

theorem member_name_mismatch_skips_type_lookup_sample:
  "visit_instr sample_import (sample_replacement ''B'' ''Mul'') 0x0A000010 (instr 0x6F 0x0A000001) =
     ([Call_GetMemberRefProps 0x0A000001], Some (instr 0x6F 0x0A000001, False)) \<and>
   spec_resolve sample_import 0x0A000001 ''Mul'' = None"
proof -
  have h1: "m_opcode (instr 0x6F 0x0A000001) = CEE_CALL \<or>
            m_opcode (instr 0x6F 0x0A000001) = CEE_CALLVIRT"
    by (simp add: sample_defs)
  have h2: "TypeFromToken (m_Arg32 (instr 0x6F 0x0A000001)) = mdtMemberRef"
    by (simp add: sample_defs)
  have h3: "GetMemberRefProps sample_import (m_Arg32 (instr 0x6F 0x0A000001)) =
              (0, 0x01000001, ''Add'')"
    by (simp add: sample_defs)
  have h4: "\<not> FAILED 0" by (simp add: FAILED_def)
  have h5: "''Add'' \<noteq> method_name (target_method (sample_replacement ''B'' ''Mul''))"
    by (simp add: sample_defs)
  have a: "m_Arg32 (instr 0x6F 0x0A000001) = 0x0A000001"
    "method_name (target_method (sample_replacement ''B'' ''Mul'')) = ''Mul''"
    by (simp_all add: sample_defs)
  from member_name_mismatch_skips_type_lookup
    [where wrapper_method_ref = "0x0A000010", OF h1 h2 h3 h4 h5]
  show ?thesis unfolding a .
qed

text \<open>
  C7: the scan goes on after a mutation: when the pass of a replacement commits a stream,
  it commits it once, the stream is as long as the method body, and every call site of the
  replacement in the body, at whatever index, is a direct call of the wrapper reference in
  the stream.
\<close>

theorem every_call_site_rewritten_in_one_pass:
  assumes "Call_Export il' \<in> set (fst (replace_calls rt md moduleId functionToken caller mr))"
    and "TryGetWrapperMemberRef md (get_method_cache_key (wrapper_method mr)) = Some w"
    and "k < length (snd (rewriter_Import rt moduleId functionToken))"
    and "is_call_site (metadata_import md) mr (snd (rewriter_Import rt moduleId functionToken) ! k)"
  shows "exports (fst (replace_calls rt md moduleId functionToken caller mr)) = [il'] \<and>
         length il' = length (snd (rewriter_Import rt moduleId functionToken)) \<and>
         m_opcode (il' ! k) = CEE_CALL \<and> m_Arg32 (il' ! k) = w"
proof -
  from replace_calls_Export [OF assms(1)] assms(2) obtain cs where
    s: "scan_instrs (metadata_import md) mr w (snd (rewriter_Import rt moduleId functionToken))
          False = (cs, Some (il', True))" and
    r: "replace_calls rt md moduleId functionToken caller mr =
          (Call_TryGetWrapperMemberRef (get_method_cache_key (wrapper_method mr)) # Call_Import
             # cs @ [Call_Export il'], Some S_OK)"
    by auto
  from scan_instrs_exports [of "metadata_import md" mr w
      "snd (rewriter_Import rt moduleId functionToken)" False] s
  have "exports cs = []" by simp
  with r have "exports (fst (replace_calls rt md moduleId functionToken caller mr)) = [il']"
    by (simp add: exports_append)
  moreover from scan_instrs_Some [OF s] have
    il': "il' = map (\<lambda>i. if is_call_site (metadata_import md) mr i then redirect w i else i)
                  (snd (rewriter_Import rt moduleId functionToken))"
    by simp
  then have "length il' = length (snd (rewriter_Import rt moduleId functionToken))" by simp
  moreover from il' assms(3,4) have "il' ! k =
      redirect w (snd (rewriter_Import rt moduleId functionToken) ! k)"
    by simp
  then have "m_opcode (il' ! k) = CEE_CALL \<and> m_Arg32 (il' ! k) = w"
    by (simp add: redirect_def)
  ultimately show ?thesis by simp
qed

text \<open>
  Function 8 of the sample module calls \<open>Sample.Math::Add\<close> at three sites, through a
  type reference, a method definition and a type definition; one pass redirects all three.
\<close>

theorem every_call_site_rewritten_in_one_pass_sample:
  "exports (fst (replace_calls sample_runtime sample_module 1 0x06000011 sample_caller
                   (sample_replacement ''A'' ''Add''))) =
     [[instr 0x28 0x0A000011, instr 0x28 0x0A000011, instr 0x28 0x0A000011,
       instr 0x28 0x0A000005]] \<and>
   is_call_site sample_import (sample_replacement ''A'' ''Add'') (sample_body 0x06000011 ! 0) \<and>
   is_call_site sample_import (sample_replacement ''A'' ''Add'') (sample_body 0x06000011 ! 1) \<and>
   is_call_site sample_import (sample_replacement ''A'' ''Add'') (sample_body 0x06000011 ! 2)"
proof -
  let ?il' = "[instr 0x28 0x0A000011, instr 0x28 0x0A000011, instr 0x28 0x0A000011,
       instr 0x28 (0x0A000005 :: mdToken)]"
  have e: "Call_Export ?il' \<in> set (fst (replace_calls sample_runtime sample_module 1 0x06000011
      sample_caller (sample_replacement ''A'' ''Add'')))"
    by (simp add: sample_pass_Add_8)
  have cached: "TryGetWrapperMemberRef sample_module
      (get_method_cache_key (wrapper_method (sample_replacement ''A'' ''Add''))) = Some 0x0A000011"
    by (simp add: callback_defs sample_defs)
  have k: "2 < length (snd (rewriter_Import sample_runtime 1 0x06000011))"
    by (simp add: sample_defs)
  have body: "snd (rewriter_Import sample_runtime 1 0x06000011) = sample_body 0x06000011"
    by (simp add: sample_defs)
  have sites:
    "is_call_site sample_import (sample_replacement ''A'' ''Add'') (sample_body 0x06000011 ! 0)"
    "is_call_site sample_import (sample_replacement ''A'' ''Add'') (sample_body 0x06000011 ! 1)"
    "is_call_site sample_import (sample_replacement ''A'' ''Add'') (sample_body 0x06000011 ! 2)"
    by (simp_all add: is_call_site_def spec_resolve_def sample_defs)
  have site: "is_call_site (metadata_import sample_module) (sample_replacement ''A'' ''Add'')
      (snd (rewriter_Import sample_runtime 1 0x06000011) ! 2)"
    using sites(3) by (simp add: body sample_module_def)
  from every_call_site_rewritten_in_one_pass [OF e cached k site] sites
  show ?thesis by simp
qed

text \<open>
  C8, as the code has it: the body of the replacement loop starts a rewrite pass, whose
  first step is the lookup of the wrapper reference, exactly when the declaring-type name
  of the caller pattern is empty or is that of the compiling method, and the method name
  of the pattern is empty or is that of the compiling method; otherwise the body does
  nothing. The assembly name of the pattern is not read during a compilation.
\<close>

theorem rewrite_pass_attempted_iff_type_and_method_match:
  "(Call_TryGetWrapperMemberRef (get_method_cache_key (wrapper_method mr))
      \<in> set (fst (replace_calls rt md moduleId functionToken caller mr))) =
     ((type_name (caller_method mr) = [] \<or>
       type_name (caller_method mr) = type_info_name (function_type caller)) \<and>
      (method_name (caller_method mr) = [] \<or>
       method_name (caller_method mr) = function_name caller)) \<and>
   (replace_calls rt md moduleId functionToken caller mr = ([], None)) =
     (\<not> ((type_name (caller_method mr) = [] \<or>
           type_name (caller_method mr) = type_info_name (function_type caller)) \<and>
          (method_name (caller_method mr) = [] \<or>
           method_name (caller_method mr) = function_name caller)))"
proof (cases rule: replace_calls_cases
    [where rt=rt and md=md and mid=moduleId and tok=functionToken and caller=caller and mr=mr])
  case skip
  then show ?thesis by (simp add: caller_matches_def)
next
  case missing
  then show ?thesis by (simp add: caller_matches_def)
next
  case (import_failed w)
  then show ?thesis by (simp add: caller_matches_def)
next
  case (scan_failed w cs)
  then show ?thesis by (simp add: caller_matches_def)
next
  case (unmodified w cs il')
  then show ?thesis by (simp add: caller_matches_def)
next
  case (committed w cs il')
  then show ?thesis by (simp add: caller_matches_def)
qed

text \<open>The replacement of \<open>Mul\<close>, whose caller type and method names are empty.\<close>

theorem rewrite_pass_attempted_iff_type_and_method_match_sample:
  "Call_TryGetWrapperMemberRef (get_method_cache_key (wrapper_method (sample_replacement ''B'' ''Mul'')))
      \<in> set (fst (replace_calls sample_runtime sample_module 1 0x06000013 sample_caller
                     (sample_replacement ''B'' ''Mul''))) \<and>
   type_name (caller_method (sample_replacement ''B'' ''Mul'')) = []"
proof -
  have "type_name (caller_method (sample_replacement ''B'' ''Mul'')) = []"
    "method_name (caller_method (sample_replacement ''B'' ''Mul'')) = []"
    by (simp_all add: sample_replacement_def)
  with rewrite_pass_attempted_iff_type_and_method_match
    [where mr = "sample_replacement ''B'' ''Mul''" and rt = sample_runtime
       and md = sample_module and moduleId = 1 and functionToken = "0x06000013"
       and caller = sample_caller]
  show ?thesis by blast
qed

text \<open>
  C8 as stated does not hold: the caller pattern of the replacement of \<open>Mul\<close> names the
  assembly \<open>B\<close> and so does not match a method of the assembly \<open>A\<close>; the replacement is
  enabled in the sample module all the same, and compiling a method of the module runs its
  pass and commits its rewrite.
\<close>

theorem rewrite_pass_for_other_caller_assembly:
  "module_id_to_info_map (snd (ModuleLoadFinished sample_runtime sample_profiler 1)) 1 =
     Some sample_module \<and>
   sample_replacement ''B'' ''Mul'' \<in> set (enabled_replacements sample_module) \<and>
   \<not> spec_pattern_matches (caller_method (sample_replacement ''B'' ''Mul''))
       (assemblyName sample_module) (type_info_name (function_type sample_caller))
       (function_name sample_caller) \<and>
   JITCompilationStarted sample_runtime
     (snd (ModuleLoadFinished sample_runtime sample_profiler 1)) 10 =
     ([Call_TryGetWrapperMemberRef
         (get_method_cache_key (wrapper_method (sample_replacement ''B'' ''Mul''))),
       Call_Import, Call_GetMemberRefProps 0x0A000006, Call_GetTypeRefProps 0x01000001,
       Call_Export [instr 0x28 0x0A000010]],
      S_OK)"
  by (simp add: sample_load sample_compile_10)
     (simp add: enabled_replacements_def spec_pattern_matches_def sample_defs)

text \<open>
  C9: a compilation event hands at most one stream to \<open>Export\<close>; a stream it hands over
  comes from a method body with at least one call site of an enabled replacement, that is
  from a scan that mutated an instruction; and when a metadata read of the event failed,
  no stream is handed over at all, so that the method body of the host is as it was.
\<close>

theorem at_most_one_commit_and_none_after_failed_read:
  "length (exports (fst (JITCompilationStarted rt this functionId))) \<le> 1 \<and>
   (\<forall>il'. il' \<in> set (exports (fst (JITCompilationStarted rt this functionId))) \<longrightarrow>
      (\<exists>md mr. module_id_to_info_map this (fst (snd (info_GetFunctionInfo rt functionId))) = Some md \<and>
         mr \<in> set (enabled_replacements md) \<and>
         (\<exists>pInstr \<in> set (snd (rewriter_Import rt (fst (snd (info_GetFunctionInfo rt functionId)))
                                  (snd (snd (info_GetFunctionInfo rt functionId))))).
            is_call_site (metadata_import md) mr pInstr))) \<and>
   (\<forall>md c. module_id_to_info_map this (fst (snd (info_GetFunctionInfo rt functionId))) = Some md \<and>
      c \<in> set (fst (JITCompilationStarted rt this functionId)) \<and>
      read_failed (metadata_import md) c \<longrightarrow>
      exports (fst (JITCompilationStarted rt this functionId)) = [])"
proof (intro conjI allI impI)
  obtain hr moduleId functionToken where
    g: "info_GetFunctionInfo rt functionId = (hr, moduleId, functionToken)"
    by (cases "info_GetFunctionInfo rt functionId")
  consider (untouched) "JITCompilationStarted rt this functionId = ([], S_OK)"
    | (tracked) md where "module_id_to_info_map this moduleId = Some md"
        "JITCompilationStarted rt this functionId =
           (fst (replacements_loop rt md moduleId functionToken
             (GetFunctionInfo rt (metadata_import md) functionToken) (enabled_replacements md)),
            S_OK)"
  proof (cases "FAILED hr \<or> module_id_to_info_map this moduleId = None \<or>
         (\<exists>md. module_id_to_info_map this moduleId = Some md \<and>
               \<not> isvalid (GetFunctionInfo rt (metadata_import md) functionToken))")
    case True
    from JITCompilationStarted_untouched [OF g True] untouched show ?thesis by simp
  next
    case False
    then obtain md where md: "\<not> FAILED hr" "module_id_to_info_map this moduleId = Some md"
      "isvalid (GetFunctionInfo rt (metadata_import md) functionToken)"
      by auto
    from JITCompilationStarted_tracked [OF g md] md(2) tracked show ?thesis by simp
  qed
  note cases = this
  show "length (exports (fst (JITCompilationStarted rt this functionId))) \<le> 1"
  proof (cases rule: cases)
    case untouched
    then show ?thesis by simp
  next
    case (tracked md)
    with replacements_loop_exports_length [of rt md moduleId functionToken _ "enabled_replacements md"]
    show ?thesis by simp
  qed
  {
    fix md c
    assume a: "module_id_to_info_map this (fst (snd (info_GetFunctionInfo rt functionId))) = Some md \<and>
      c \<in> set (fst (JITCompilationStarted rt this functionId)) \<and>
      read_failed (metadata_import md) c"
    show "exports (fst (JITCompilationStarted rt this functionId)) = []"
    proof (cases rule: cases)
      case untouched
      then show ?thesis by simp
    next
      case (tracked md')
      with a g have "md' = md" by simp
      with tracked a replacements_loop_failed_read [of c rt md moduleId functionToken _
          "enabled_replacements md"]
      show ?thesis by simp
    qed
  }
  {
    fix il'
    assume "il' \<in> set (exports (fst (JITCompilationStarted rt this functionId)))"
    then have "Call_Export il' \<in> set (fst (JITCompilationStarted rt this functionId))"
      by (simp add: exports_set)
    then obtain md mr where
      md: "module_id_to_info_map this (fst (snd (info_GetFunctionInfo rt functionId))) = Some md"
      and mr: "mr \<in> set (enabled_replacements md)"
      and e: "Call_Export il' \<in> set (fst (replace_calls rt md
          (fst (snd (info_GetFunctionInfo rt functionId)))
          (snd (snd (info_GetFunctionInfo rt functionId)))
          (GetFunctionInfo rt (metadata_import md) (snd (snd (info_GetFunctionInfo rt functionId))))
          mr))"
      by (rule JITCompilationStarted_Export)
    from replace_calls_Export [OF e] obtain w cs where
      s: "scan_instrs (metadata_import md) mr w
            (snd (rewriter_Import rt (fst (snd (info_GetFunctionInfo rt functionId)))
                    (snd (snd (info_GetFunctionInfo rt functionId))))) False =
          (cs, Some (il', True))"
      by blast
    from scan_instrs_Some [OF s] have
      "\<exists>pInstr \<in> set (snd (rewriter_Import rt (fst (snd (info_GetFunctionInfo rt functionId)))
                                  (snd (snd (info_GetFunctionInfo rt functionId))))).
            is_call_site (metadata_import md) mr pInstr"
      by simp
    with md mr show "\<exists>md mr. module_id_to_info_map this (fst (snd (info_GetFunctionInfo rt functionId))) = Some md \<and>
         mr \<in> set (enabled_replacements md) \<and>
         (\<exists>pInstr \<in> set (snd (rewriter_Import rt (fst (snd (info_GetFunctionInfo rt functionId)))
                                  (snd (snd (info_GetFunctionInfo rt functionId))))).
            is_call_site (metadata_import md) mr pInstr)"
      by blast
  }
qed

text \<open>
  Function 9 of the sample module: the scan redirects the call of \<open>Mul\<close> in its copy of the
  body, then a read fails, and nothing is committed. Function 7 commits once.
\<close>

theorem at_most_one_commit_and_none_after_failed_read_sample:
  "Call_GetMemberRefProps 0x0A000003
     \<in> set (fst (JITCompilationStarted sample_runtime sample_loaded_profiler 9)) \<and>
   read_failed sample_import (Call_GetMemberRefProps 0x0A000003 :: unit call) \<and>
   exports (fst (JITCompilationStarted sample_runtime sample_loaded_profiler 9)) = [] \<and>
   length (exports (fst (JITCompilationStarted sample_runtime sample_loaded_profiler 7))) \<le> 1"
proof -
  have md: "module_id_to_info_map sample_loaded_profiler
      (fst (snd (info_GetFunctionInfo sample_runtime 9))) = Some sample_module"
    by (simp add: sample_defs)
  have c: "Call_GetMemberRefProps 0x0A000003
     \<in> set (fst (JITCompilationStarted sample_runtime sample_loaded_profiler 9))"
    by (simp add: sample_compile_9)
  have f: "read_failed (metadata_import sample_module) (Call_GetMemberRefProps 0x0A000003 :: unit call)"
    by (simp add: sample_defs)
  have f': "read_failed sample_import (Call_GetMemberRefProps 0x0A000003 :: unit call)"
    by (simp add: sample_defs)
  note t9 = at_most_one_commit_and_none_after_failed_read
    [of sample_runtime sample_loaded_profiler 9]
  note t7 = at_most_one_commit_and_none_after_failed_read
    [of sample_runtime sample_loaded_profiler 7]
  from t9 md c f have "exports (fst (JITCompilationStarted sample_runtime sample_loaded_profiler 9)) = []"
    by blast
  moreover from t7 have
    "length (exports (fst (JITCompilationStarted sample_runtime sample_loaded_profiler 7))) \<le> 1"
    by (rule conjunct1)
  ultimately show ?thesis using c f' by simp
qed

text \<open>
  C10: the compilation-start handler returns success to the host for every input: for an
  untracked module, an unresolvable caller, a missing wrapper reference, a metadata read
  that fails during the scan and a committed rewrite alike, the result is \<open>S_OK\<close>.
\<close>

theorem JITCompilationStarted_returns_S_OK:
  "snd (JITCompilationStarted rt this functionId) = S_OK"
proof -
  obtain hr moduleId functionToken where
    g: "info_GetFunctionInfo rt functionId = (hr, moduleId, functionToken)"
    by (cases "info_GetFunctionInfo rt functionId")
  show ?thesis
  proof (cases "FAILED hr \<or> module_id_to_info_map this moduleId = None \<or>
         (\<exists>md. module_id_to_info_map this moduleId = Some md \<and>
               \<not> isvalid (GetFunctionInfo rt (metadata_import md) functionToken))")
    case True
    from JITCompilationStarted_untouched [OF g True] show ?thesis by simp
  next
    case False
    then obtain md where "\<not> FAILED hr" "module_id_to_info_map this moduleId = Some md"
      "isvalid (GetFunctionInfo rt (metadata_import md) functionToken)"
      by auto
    from JITCompilationStarted_tracked [OF g this] show ?thesis by simp
  qed
qed

text \<open>On function 9 of the sample module, where a read fails during the scan.\<close>

theorem JITCompilationStarted_returns_S_OK_sample:
  "snd (JITCompilationStarted sample_runtime
          (sample_profiler\<lparr>module_id_to_info_map := [1 \<mapsto> sample_module]\<rparr>) 9) = 0"
  using JITCompilationStarted_returns_S_OK
    [of sample_runtime "sample_profiler\<lparr>module_id_to_info_map := [1 \<mapsto> sample_module]\<rparr>" 9]
  by (simp only: S_OK_def)

end
